theory Spec2Isabelle
  imports Complex_Main "HOL-Library.Word" "HOL-Library.Char_ord" "HOL-Library.List_Lexorder"
begin

section \<open>Data model (vulkan.h)\<close>

text \<open>
  \<^verbatim>\<open>VkResult\<close> is the signed result enumeration of the driver API. The opaque handles
  (\<^verbatim>\<open>VkInstance\<close>, \<^verbatim>\<open>VkPhysicalDevice\<close>, \<^verbatim>\<open>VkDevice\<close>, \<^verbatim>\<open>VkSurfaceKHR\<close>,
  \<^verbatim>\<open>SDL_Window*\<close>) are modelled as natural numbers.
\<close>

type_synonym VkResult = int
type_synonym VkInstance = nat
type_synonym VkPhysicalDevice = nat
type_synonym VkDevice = nat
type_synonym VkSurfaceKHR = nat
type_synonym SDL_Window = nat

text \<open>\<^verbatim>\<open>struct ExtensionInfo\<close> and \<^verbatim>\<open>struct LayerInfo\<close>.\<close>

record ExtensionInfo =
  name :: string
  specVersion :: "32 word"

record LayerInfo =
  name :: string
  description :: string
  specVersion :: "32 word"
  implementationVersion :: "32 word"

section \<open>\<^verbatim>\<open>std::set<std::string>\<close>\<close>

text \<open>
  A \<^verbatim>\<open>std::set\<close> is modelled by the strictly increasing list of its elements, which is
  the order its iterators visit them in. As in the C++ container, insertion and lookup use
  only the comparison \<open><\<close>: two keys are equivalent when neither is less than the other.
  On \<^typ>\<open>string\<close> the comparison is the lexicographic one on character codes, the order
  of \<^verbatim>\<open>std::string::operator<\<close>.
\<close>

fun set_insert :: "'a::linorder \<Rightarrow> 'a list \<Rightarrow> 'a list" where
  "set_insert x [] = [x]"
| "set_insert x (y # ys) =
     (if x < y then x # y # ys
      else if y < x then y # set_insert x ys
      else y # ys)"

text \<open>\<^verbatim>\<open>s.find(x) != s.end()\<close>\<close>

fun set_find :: "'a::linorder \<Rightarrow> 'a list \<Rightarrow> bool" where
  "set_find x [] = False"
| "set_find x (y # ys) =
     (if x < y then False
      else if y < x then set_find x ys
      else True)"

section \<open>Name filter (test.cpp)\<close>

text \<open>
  \<^verbatim>\<open>template<typename Info> filter_by_name(infos, names_vec)\<close>. The template only needs the
  member \<^verbatim>\<open>name\<close> of \<^verbatim>\<open>Info\<close>, which is the first argument here. Both range-for loops are
  folds; \<^verbatim>\<open>push_back\<close> appends.
\<close>

definition filter_by_name :: "('info \<Rightarrow> string) \<Rightarrow> 'info list \<Rightarrow> string list \<Rightarrow> 'info list" where
  "filter_by_name name_of infos names_vec =
     (let names = fold set_insert names_vec [] in
      fold (\<lambda>info result_infos.
              if set_find (name_of info) names then result_infos @ [info] else result_infos)
           infos [])"

section \<open>Result codes and their names (vulkan.h)\<close>

text \<open>
  The enumerators of \<^verbatim>\<open>VkResult\<close> come from the driver's own header, which is not part
  of the repository; they are given here with the values that header assigns to them.
\<close>

definition VK_SUCCESS :: VkResult where
  "VK_SUCCESS = 0"

definition VK_NOT_READY :: VkResult where
  "VK_NOT_READY = 1"

definition VK_TIMEOUT :: VkResult where
  "VK_TIMEOUT = 2"

definition VK_EVENT_SET :: VkResult where
  "VK_EVENT_SET = 3"

definition VK_EVENT_RESET :: VkResult where
  "VK_EVENT_RESET = 4"

definition VK_INCOMPLETE :: VkResult where
  "VK_INCOMPLETE = 5"

definition VK_ERROR_OUT_OF_HOST_MEMORY :: VkResult where
  "VK_ERROR_OUT_OF_HOST_MEMORY = - 1"

definition VK_ERROR_OUT_OF_DEVICE_MEMORY :: VkResult where
  "VK_ERROR_OUT_OF_DEVICE_MEMORY = - 2"

definition VK_ERROR_INITIALIZATION_FAILED :: VkResult where
  "VK_ERROR_INITIALIZATION_FAILED = - 3"

definition VK_ERROR_DEVICE_LOST :: VkResult where
  "VK_ERROR_DEVICE_LOST = - 4"

definition VK_ERROR_MEMORY_MAP_FAILED :: VkResult where
  "VK_ERROR_MEMORY_MAP_FAILED = - 5"

definition VK_ERROR_LAYER_NOT_PRESENT :: VkResult where
  "VK_ERROR_LAYER_NOT_PRESENT = - 6"

definition VK_ERROR_EXTENSION_NOT_PRESENT :: VkResult where
  "VK_ERROR_EXTENSION_NOT_PRESENT = - 7"

definition VK_ERROR_FEATURE_NOT_PRESENT :: VkResult where
  "VK_ERROR_FEATURE_NOT_PRESENT = - 8"

definition VK_ERROR_INCOMPATIBLE_DRIVER :: VkResult where
  "VK_ERROR_INCOMPATIBLE_DRIVER = - 9"

definition VK_ERROR_TOO_MANY_OBJECTS :: VkResult where
  "VK_ERROR_TOO_MANY_OBJECTS = - 10"

definition VK_ERROR_FORMAT_NOT_SUPPORTED :: VkResult where
  "VK_ERROR_FORMAT_NOT_SUPPORTED = - 11"

definition VK_ERROR_FRAGMENTED_POOL :: VkResult where
  "VK_ERROR_FRAGMENTED_POOL = - 12"

definition VK_ERROR_UNKNOWN :: VkResult where
  "VK_ERROR_UNKNOWN = - 13"

definition VK_ERROR_OUT_OF_POOL_MEMORY :: VkResult where
  "VK_ERROR_OUT_OF_POOL_MEMORY = - 1000069000"

definition VK_ERROR_INVALID_EXTERNAL_HANDLE :: VkResult where
  "VK_ERROR_INVALID_EXTERNAL_HANDLE = - 1000072003"

definition VK_ERROR_FRAGMENTATION :: VkResult where
  "VK_ERROR_FRAGMENTATION = - 1000161000"

definition VK_ERROR_INVALID_OPAQUE_CAPTURE_ADDRESS :: VkResult where
  "VK_ERROR_INVALID_OPAQUE_CAPTURE_ADDRESS = - 1000257000"

definition VK_ERROR_SURFACE_LOST_KHR :: VkResult where
  "VK_ERROR_SURFACE_LOST_KHR = - 1000000000"

definition VK_ERROR_NATIVE_WINDOW_IN_USE_KHR :: VkResult where
  "VK_ERROR_NATIVE_WINDOW_IN_USE_KHR = - 1000000001"

definition VK_SUBOPTIMAL_KHR :: VkResult where
  "VK_SUBOPTIMAL_KHR = 1000001003"

definition VK_ERROR_OUT_OF_DATE_KHR :: VkResult where
  "VK_ERROR_OUT_OF_DATE_KHR = - 1000001004"

definition VK_ERROR_INCOMPATIBLE_DISPLAY_KHR :: VkResult where
  "VK_ERROR_INCOMPATIBLE_DISPLAY_KHR = - 1000003001"

definition VK_ERROR_VALIDATION_FAILED_EXT :: VkResult where
  "VK_ERROR_VALIDATION_FAILED_EXT = - 1000011001"

definition VK_ERROR_INVALID_SHADER_NV :: VkResult where
  "VK_ERROR_INVALID_SHADER_NV = - 1000012000"

definition VK_ERROR_INVALID_DRM_FORMAT_MODIFIER_PLANE_LAYOUT_EXT :: VkResult where
  "VK_ERROR_INVALID_DRM_FORMAT_MODIFIER_PLANE_LAYOUT_EXT = - 1000158000"

definition VK_ERROR_NOT_PERMITTED_EXT :: VkResult where
  "VK_ERROR_NOT_PERMITTED_EXT = - 1000174001"

definition VK_ERROR_FULL_SCREEN_EXCLUSIVE_MODE_LOST_EXT :: VkResult where
  "VK_ERROR_FULL_SCREEN_EXCLUSIVE_MODE_LOST_EXT = - 1000255000"

definition VK_THREAD_IDLE_KHR :: VkResult where
  "VK_THREAD_IDLE_KHR = 1000268000"

definition VK_THREAD_DONE_KHR :: VkResult where
  "VK_THREAD_DONE_KHR = 1000268001"

definition VK_OPERATION_DEFERRED_KHR :: VkResult where
  "VK_OPERATION_DEFERRED_KHR = 1000268002"

definition VK_OPERATION_NOT_DEFERRED_KHR :: VkResult where
  "VK_OPERATION_NOT_DEFERRED_KHR = 1000268003"

definition VK_PIPELINE_COMPILE_REQUIRED_EXT :: VkResult where
  "VK_PIPELINE_COMPILE_REQUIRED_EXT = 1000297000"

text \<open>
  \<^verbatim>\<open>static std::map<VkResult, const char*> result_to_name\<close>, by its initializer list.
  The map built from an initializer list keeps the first entry of each key, and so does
  \<^const>\<open>map_of\<close>.
\<close>

definition result_to_name_init :: "(VkResult \<times> string) list" where
  "result_to_name_init =
    [(VK_SUCCESS, ''VK_SUCCESS''),
     (VK_NOT_READY, ''VK_NOT_READY''),
     (VK_TIMEOUT, ''VK_TIMEOUT''),
     (VK_EVENT_SET, ''VK_EVENT_SET''),
     (VK_EVENT_RESET, ''VK_EVENT_RESET''),
     (VK_INCOMPLETE, ''VK_INCOMPLETE''),
     (VK_ERROR_OUT_OF_HOST_MEMORY, ''VK_ERROR_OUT_OF_HOST_MEMORY''),
     (VK_ERROR_OUT_OF_DEVICE_MEMORY, ''VK_ERROR_OUT_OF_DEVICE_MEMORY''),
     (VK_ERROR_INITIALIZATION_FAILED, ''VK_ERROR_INITIALIZATION_FAILED''),
     (VK_ERROR_DEVICE_LOST, ''VK_ERROR_DEVICE_LOST''),
     (VK_ERROR_MEMORY_MAP_FAILED, ''VK_ERROR_MEMORY_MAP_FAILED''),
     (VK_ERROR_LAYER_NOT_PRESENT, ''VK_ERROR_LAYER_NOT_PRESENT''),
     (VK_ERROR_EXTENSION_NOT_PRESENT, ''VK_ERROR_EXTENSION_NOT_PRESENT''),
     (VK_ERROR_FEATURE_NOT_PRESENT, ''VK_ERROR_FEATURE_NOT_PRESENT''),
     (VK_ERROR_INCOMPATIBLE_DRIVER, ''VK_ERROR_INCOMPATIBLE_DRIVER''),
     (VK_ERROR_TOO_MANY_OBJECTS, ''VK_ERROR_TOO_MANY_OBJECTS''),
     (VK_ERROR_FORMAT_NOT_SUPPORTED, ''VK_ERROR_FORMAT_NOT_SUPPORTED''),
     (VK_ERROR_FRAGMENTED_POOL, ''VK_ERROR_FRAGMENTED_POOL''),
     (VK_ERROR_UNKNOWN, ''VK_ERROR_UNKNOWN''),
     (VK_ERROR_OUT_OF_POOL_MEMORY, ''VK_ERROR_OUT_OF_POOL_MEMORY''),
     (VK_ERROR_INVALID_EXTERNAL_HANDLE, ''VK_ERROR_INVALID_EXTERNAL_HANDLE''),
     (VK_ERROR_FRAGMENTATION, ''VK_ERROR_FRAGMENTATION''),
     (VK_ERROR_INVALID_OPAQUE_CAPTURE_ADDRESS, ''VK_ERROR_INVALID_OPAQUE_CAPTURE_ADDRESS''),
     (VK_ERROR_SURFACE_LOST_KHR, ''VK_ERROR_SURFACE_LOST_KHR''),
     (VK_ERROR_NATIVE_WINDOW_IN_USE_KHR, ''VK_ERROR_NATIVE_WINDOW_IN_USE_KHR''),
     (VK_SUBOPTIMAL_KHR, ''VK_SUBOPTIMAL_KHR''),
     (VK_ERROR_OUT_OF_DATE_KHR, ''VK_ERROR_OUT_OF_DATE_KHR''),
     (VK_ERROR_INCOMPATIBLE_DISPLAY_KHR, ''VK_ERROR_INCOMPATIBLE_DISPLAY_KHR''),
     (VK_ERROR_VALIDATION_FAILED_EXT, ''VK_ERROR_VALIDATION_FAILED_EXT''),
     (VK_ERROR_INVALID_SHADER_NV, ''VK_ERROR_INVALID_SHADER_NV''),
     (VK_ERROR_INVALID_DRM_FORMAT_MODIFIER_PLANE_LAYOUT_EXT, ''VK_ERROR_INVALID_DRM_FORMAT_MODIFIER_PLANE_LAYOUT_EXT''),
     (VK_ERROR_NOT_PERMITTED_EXT, ''VK_ERROR_NOT_PERMITTED_EXT''),
     (VK_ERROR_FULL_SCREEN_EXCLUSIVE_MODE_LOST_EXT, ''VK_ERROR_FULL_SCREEN_EXCLUSIVE_MODE_LOST_EXT''),
     (VK_THREAD_IDLE_KHR, ''VK_THREAD_IDLE_KHR''),
     (VK_THREAD_DONE_KHR, ''VK_THREAD_DONE_KHR''),
     (VK_OPERATION_DEFERRED_KHR, ''VK_OPERATION_DEFERRED_KHR''),
     (VK_OPERATION_NOT_DEFERRED_KHR, ''VK_OPERATION_NOT_DEFERRED_KHR''),
     (VK_PIPELINE_COMPILE_REQUIRED_EXT, ''VK_PIPELINE_COMPILE_REQUIRED_EXT'')]"

definition result_to_name :: "VkResult \<rightharpoonup> string" where
  "result_to_name = map_of result_to_name_init"

text \<open>
  The two exception classes of the code: \<^verbatim>\<open>VulkanException\<close> (a result code and a
  message) and \<^verbatim>\<open>std::runtime_error\<close> (a message).
\<close>

datatype exception = VulkanException VkResult string | runtime_error string

text \<open>\<^verbatim>\<open>VulkanException::enum_name\<close>, on the stored \<^verbatim>\<open>result\<close>.\<close>

definition enum_name :: "VkResult \<Rightarrow> string" where
  "enum_name result =
     (case result_to_name result of
        None \<Rightarrow> ''???''
      | Some itr_second \<Rightarrow> itr_second)"

section \<open>The driver and the windowing library\<close>

text \<open>
  The structures the driver fills (\<^verbatim>\<open>VkLayerProperties\<close>, \<^verbatim>\<open>VkExtensionProperties\<close>), with
  the members the code reads. A character array holding a C string is modelled by the
  string it holds.
\<close>

record VkLayerProperties =
  layerName :: string
  specVersion :: "32 word"
  implementationVersion :: "32 word"
  description :: string

record VkExtensionProperties =
  extensionName :: string
  specVersion :: "32 word"

text \<open>
  The structures the code fills for the two creation calls, with the members it sets to
  something other than a null pointer. A \<^verbatim>\<open>const char* const*\<close> array of names is the
  list of the strings it points to, and the priority \<^verbatim>\<open>1.0f\<close> is the rational 1.
\<close>

datatype VkStructureType =
    VK_STRUCTURE_TYPE_APPLICATION_INFO
  | VK_STRUCTURE_TYPE_INSTANCE_CREATE_INFO
  | VK_STRUCTURE_TYPE_DEVICE_QUEUE_CREATE_INFO
  | VK_STRUCTURE_TYPE_DEVICE_CREATE_INFO

record VkApplicationInfo =
  sType :: VkStructureType
  pApplicationName :: string
  applicationVersion :: "32 word"
  pEngineName :: string
  engineVersion :: "32 word"
  apiVersion :: "32 word"

record VkInstanceCreateInfo =
  sType :: VkStructureType
  flags :: "32 word"
  pApplicationInfo :: VkApplicationInfo
  enabledExtensionCount :: "32 word"
  ppEnabledExtensionNames :: "string list"
  enabledLayerCount :: "32 word"
  ppEnabledLayerNames :: "string list"

record VkDeviceQueueCreateInfo =
  sType :: VkStructureType
  queueFamilyIndex :: "32 word"
  queueCount :: "32 word"
  pQueuePriorities :: "rat list"
  flags :: "32 word"

record VkDeviceCreateInfo =
  sType :: VkStructureType
  queueCreateInfoCount :: "32 word"
  pQueueCreateInfos :: "VkDeviceQueueCreateInfo list"
  enabledLayerCount :: "32 word"
  ppEnabledLayerNames :: "string list"
  enabledExtensionCount :: "32 word"
  ppEnabledExtensionNames :: "string list"
  flags :: "32 word"

text \<open>\<^verbatim>\<open>VK_API_VERSION_1_0\<close> is \<^verbatim>\<open>VK_MAKE_VERSION(1, 0, 0)\<close>: the major version from bit 22.\<close>

definition VK_API_VERSION_1_0 :: "32 word" where
  "VK_API_VERSION_1_0 = push_bit 22 1"

text \<open>
  The entry points of the driver and of the windowing library are the parameters of the
  model: a \<open>Driver\<close> gives the answer of each entry point to each call the code makes.

  An enumeration entry point is called twice. The first call passes no buffer and answers
  with a result and a count (\<open>_count\<close>). The second call passes a buffer with room for the
  count given to it, and answers with a result and the entries it wrote (\<open>_fill\<close>); it
  overwrites the count with the number of entries written, so the count the code loops
  over after the second call is the length of that list.

  \<^verbatim>\<open>vkGetPhysicalDeviceSurfaceSupportKHR\<close> answers with a result and with what it stored
  through \<^verbatim>\<open>pSupported\<close>: \<open>None\<close> when it stored nothing.
\<close>

record Driver =
  vkEnumerateInstanceLayerProperties_count :: "VkResult \<times> 32 word"
  vkEnumerateInstanceLayerProperties_fill :: "32 word \<Rightarrow> VkResult \<times> VkLayerProperties list"
  vkEnumerateInstanceExtensionProperties_count :: "VkResult \<times> 32 word"
  vkEnumerateInstanceExtensionProperties_fill ::
    "32 word \<Rightarrow> VkResult \<times> VkExtensionProperties list"
  SDL_Vulkan_GetInstanceExtensions_count :: "SDL_Window \<Rightarrow> bool \<times> 32 word"
  SDL_Vulkan_GetInstanceExtensions_fill :: "SDL_Window \<Rightarrow> 32 word \<Rightarrow> bool \<times> string list"
  vkCreateInstance :: "VkInstanceCreateInfo \<Rightarrow> VkResult \<times> VkInstance"
  vkEnumeratePhysicalDevices_count :: "VkInstance \<Rightarrow> VkResult \<times> 32 word"
  vkEnumeratePhysicalDevices_fill :: "VkInstance \<Rightarrow> 32 word \<Rightarrow> VkResult \<times> VkPhysicalDevice list"
  vkEnumerateDeviceExtensionProperties_count :: "VkPhysicalDevice \<Rightarrow> VkResult \<times> 32 word"
  vkEnumerateDeviceExtensionProperties_fill ::
    "VkPhysicalDevice \<Rightarrow> 32 word \<Rightarrow> VkResult \<times> VkExtensionProperties list"
  vkCreateDevice :: "VkPhysicalDevice \<Rightarrow> VkDeviceCreateInfo \<Rightarrow> VkResult \<times> VkDevice"
  vkGetPhysicalDeviceSurfaceSupportKHR ::
    "VkPhysicalDevice \<Rightarrow> 32 word \<Rightarrow> VkSurfaceKHR \<Rightarrow> VkResult \<times> 32 word option"

section \<open>Wrapper classes (vulkan.h)\<close>

record Surface =
  surface :: VkSurfaceKHR

record LogicalDevice =
  device :: VkDevice
  queue_family_index :: "32 word"

record PhysicalDevice =
  physical_device :: VkPhysicalDevice
  queue_family_index :: "32 word"

record Instance =
  instance_handle :: VkInstance

text \<open>
  The two parameter interfaces. Each pure virtual getter is a field holding the value the
  getter returns; \<^verbatim>\<open>ICreateInstanceParameters\<close> derives from
  \<^verbatim>\<open>IRequestLayerAndExtensions\<close>. A version of type \<^verbatim>\<open>int\<close> is held as its 32-bit
  two's-complement pattern, which the assignment to an unsigned member keeps.
\<close>

record IRequestLayerAndExtensions =
  get_requested_layers :: "LayerInfo list"
  get_requested_extensions :: "ExtensionInfo list"

record ICreateInstanceParameters = IRequestLayerAndExtensions +
  get_application_name :: string
  get_application_version :: "32 word"
  get_engine_name :: string
  get_engine_version :: "32 word"

section \<open>Capability queries\<close>

text \<open>
  \<^verbatim>\<open>PhysicalDevice::is_surface_supported\<close>. The local \<^verbatim>\<open>supported\<close> starts as
  \<^verbatim>\<open>false\<close>, the result of the driver call is dropped, and the local is cast to
  \<^verbatim>\<open>bool\<close>.
\<close>

definition is_surface_supported :: "Driver \<Rightarrow> PhysicalDevice \<Rightarrow> Surface \<Rightarrow> bool" where
  "is_surface_supported drv pd s =
     (let supported0 = (0 :: 32 word);
          supported =
            (case snd (vkGetPhysicalDeviceSurfaceSupportKHR drv (physical_device pd)
                         (PhysicalDevice.queue_family_index pd) (surface s)) of
               None \<Rightarrow> supported0
             | Some v \<Rightarrow> v)
      in supported \<noteq> 0)"

text \<open>\<^verbatim>\<open>get_layer_infos\<close>\<close>

definition get_layer_infos :: "Driver \<Rightarrow> exception + LayerInfo list" where
  "get_layer_infos drv =
     (case vkEnumerateInstanceLayerProperties_count drv of (result, instance_layer_count) \<Rightarrow>
        if result \<noteq> VK_SUCCESS
        then Inl (VulkanException result ''Error getting number of layers'')
        else if instance_layer_count = 0
        then Inl (runtime_error ''Layer count non-positive'')
        else
          (case vkEnumerateInstanceLayerProperties_fill drv instance_layer_count of
             (result, layer_properties) \<Rightarrow>
               Inr (fold (\<lambda>p layer_infos. layer_infos @
                      [\<lparr>LayerInfo.name = layerName p,
                        LayerInfo.description = VkLayerProperties.description p,
                        LayerInfo.specVersion = VkLayerProperties.specVersion p,
                        LayerInfo.implementationVersion =
                          VkLayerProperties.implementationVersion p\<rparr>])
                    layer_properties [])))"

text \<open>\<^verbatim>\<open>get_extension_infos\<close>\<close>

definition get_extension_infos :: "Driver \<Rightarrow> exception + ExtensionInfo list" where
  "get_extension_infos drv =
     (case vkEnumerateInstanceExtensionProperties_count drv of (result, num_properties) \<Rightarrow>
        if result \<noteq> VK_SUCCESS
        then Inl (VulkanException result ''Error getting number of extensions'')
        else if num_properties = 0
        then Inl (runtime_error ''Extension count zero'')
        else
          (case vkEnumerateInstanceExtensionProperties_fill drv num_properties of
             (result, properties) \<Rightarrow>
               Inr (fold (\<lambda>p infos. infos @
                      [\<lparr>ExtensionInfo.name = extensionName p,
                        ExtensionInfo.specVersion = VkExtensionProperties.specVersion p\<rparr>])
                    properties [])))"

text \<open>\<^verbatim>\<open>get_extension_names\<close>. A newline in a message is the character \<open>CHR 0x0A\<close>.\<close>

definition get_extension_names :: "Driver \<Rightarrow> SDL_Window \<Rightarrow> exception + string list" where
  "get_extension_names drv window =
     (case SDL_Vulkan_GetInstanceExtensions_count drv window of (success, num_extensions) \<Rightarrow>
        if \<not> success
        then Inl (runtime_error
               (''SDL_Vulkan failed to get number of instance extensions'' @ [CHR 0x0A]))
        else
          (case SDL_Vulkan_GetInstanceExtensions_fill drv window num_extensions of
             (success, extension_name_c_strings) \<Rightarrow>
               if \<not> success
               then Inl (runtime_error
                      (''SDL_Vulkan failed to get names of instance extensions'' @ [CHR 0x0A]))
               else Inr (fold (\<lambda>name extension_names. extension_names @ [name])
                           extension_name_c_strings [])))"

text \<open>
  \<^verbatim>\<open>Instance::select_gpu\<close>. The code reads \<^verbatim>\<open>physicalDevices[0]\<close> whatever the count is;
  when the driver wrote no entry that read has no defined value, and the model has no
  result (\<open>None\<close>).
\<close>

definition select_gpu :: "Driver \<Rightarrow> Instance \<Rightarrow> (exception + PhysicalDevice) option" where
  "select_gpu drv inst =
     (case vkEnumeratePhysicalDevices_count drv (instance_handle inst) of
        (result, num_physical_devices) \<Rightarrow>
        if result \<noteq> VK_SUCCESS
        then Some (Inl (VulkanException result ''Error getting number of physical devices''))
        else
          (case vkEnumeratePhysicalDevices_fill drv (instance_handle inst) num_physical_devices of
             (result, physicalDevices) \<Rightarrow>
               if result \<noteq> VK_SUCCESS
               then Some (Inl (VulkanException result ''Error getting list of physical devices''))
               else
                 (let index = (0 :: nat) in
                  if index < length physicalDevices
                  then Some (Inr \<lparr>physical_device = physicalDevices ! index,
                                  PhysicalDevice.queue_family_index = of_nat index\<rparr>)
                  else None)))"

section \<open>Temporary buffers\<close>

text \<open>
  The free store, as far as instance and device creation use it: the set of addresses of
  the arrays obtained with \<^verbatim>\<open>new[]\<close> and not yet released with \<^verbatim>\<open>delete[]\<close>, and
  the next address to hand out.
\<close>

record Heap =
  next_addr :: nat
  live :: "nat set"

definition new_array :: "Heap \<Rightarrow> nat \<times> Heap" where
  "new_array h =
     (next_addr h, \<lparr>next_addr = Suc (next_addr h), live = insert (next_addr h) (live h)\<rparr>)"

definition delete_array :: "nat \<Rightarrow> Heap \<Rightarrow> Heap" where
  "delete_array p h = h\<lparr>live := live h - {p}\<rparr>"

text \<open>
  A heap is well formed when every live address was handed out before: it is below the
  next address.
\<close>

definition heap_ok :: "Heap \<Rightarrow> bool" where
  "heap_ok h \<longleftrightarrow> (\<forall>p \<in> live h. p < next_addr h)"

text \<open>
  \<^verbatim>\<open>template<typename Info> struct NamesArray\<close>: \<^verbatim>\<open>c_strings\<close> is the address of the array
  of pointers, and \<open>elems\<close> holds, for each cell of that array that was set, the address of
  the character buffer it points to and the string copied there.
\<close>

record NamesArray =
  count :: "32 word"
  c_strings :: nat
  elems :: "(nat \<times> string) list"

text \<open>The constructor: one array of pointers, then one buffer for each name.\<close>

definition NamesArray_new :: "('info \<Rightarrow> string) \<Rightarrow> 'info list \<Rightarrow> Heap \<Rightarrow> NamesArray \<times> Heap" where
  "NamesArray_new name_of infos h =
     (case new_array h of (arr, h0) \<Rightarrow>
        fold (\<lambda>info (na, h1).
                case new_array h1 of (buf, h2) \<Rightarrow>
                  (na\<lparr>elems := elems na @ [(buf, name_of info)], count := count na + 1\<rparr>, h2))
             infos
             (\<lparr>count = 0, c_strings = arr, elems = []\<rparr>, h0))"

text \<open>
  The destructor: the buffers from the last counted cell down to the first, then the
  array of pointers.
\<close>

definition NamesArray_delete :: "NamesArray \<Rightarrow> Heap \<Rightarrow> Heap" where
  "NamesArray_delete na h =
     delete_array (c_strings na)
       (fold (\<lambda>cell h1. delete_array (fst cell) h1) (rev (take (unat (count na)) (elems na))) h)"

section \<open>Instance creation\<close>

text \<open>
  \<^verbatim>\<open>Instance::Instance\<close>. The two \<^verbatim>\<open>NamesArray\<close> locals are destroyed in reverse order of
  construction when the constructor body is left, by the end of the body and by the
  \<^verbatim>\<open>throw\<close> alike.
\<close>

definition Instance_new ::
  "Driver \<Rightarrow> ICreateInstanceParameters \<Rightarrow> Heap \<Rightarrow> (exception + Instance) \<times> Heap" where
  "Instance_new drv parameters h =
     (case NamesArray_new LayerInfo.name (get_requested_layers parameters) h of
        (requested_layer_names, h1) \<Rightarrow>
      case NamesArray_new ExtensionInfo.name (get_requested_extensions parameters) h1 of
        (requested_extension_names, h2) \<Rightarrow>
      let app_info =
            \<lparr>VkApplicationInfo.sType = VK_STRUCTURE_TYPE_APPLICATION_INFO,
             pApplicationName = get_application_name parameters,
             applicationVersion = get_application_version parameters,
             pEngineName = get_engine_name parameters,
             engineVersion = get_engine_version parameters,
             apiVersion = VK_API_VERSION_1_0\<rparr>;
          create_info =
            \<lparr>VkInstanceCreateInfo.sType = VK_STRUCTURE_TYPE_INSTANCE_CREATE_INFO,
             VkInstanceCreateInfo.flags = 0,
             pApplicationInfo = app_info,
             VkInstanceCreateInfo.enabledExtensionCount = count requested_extension_names,
             VkInstanceCreateInfo.ppEnabledExtensionNames =
               map snd (elems requested_extension_names),
             VkInstanceCreateInfo.enabledLayerCount = count requested_layer_names,
             VkInstanceCreateInfo.ppEnabledLayerNames = map snd (elems requested_layer_names)\<rparr>
      in
      case vkCreateInstance drv create_info of (result, inst) \<Rightarrow>
        let h3 = NamesArray_delete requested_layer_names
                   (NamesArray_delete requested_extension_names h2)
        in if result \<noteq> VK_SUCCESS
           then (Inl (VulkanException result ''Error while creating vulkan instance''), h3)
           else (Inr \<lparr>instance_handle = inst\<rparr>, h3))"

section \<open>Logical device creation\<close>

text \<open>
  \<^verbatim>\<open>std::set_difference\<close> on two increasing ranges, by the comparison \<open><\<close> alone: the
  elements of the first range that have no equivalent in the second.
\<close>

fun set_difference :: "'a::linorder list \<Rightarrow> 'a list \<Rightarrow> 'a list" where
  "set_difference [] ys = []"
| "set_difference (x # xs) [] = x # xs"
| "set_difference (x # xs) (y # ys) =
     (if x < y then x # set_difference xs (y # ys)
      else if y < x then set_difference (x # xs) ys
      else set_difference xs ys)"

text \<open>
  Lines 311 to 323 of \<^verbatim>\<open>create_logical_device\<close>: a vector of as many empty strings as
  the two sets differ in size, overwritten from its beginning by the set difference, then
  joined with a space before each name. The difference never has more elements than the
  vector (lemma \<open>length_set_difference\<close> below), so the write stays inside it.
\<close>

definition not_found_names :: "string list \<Rightarrow> string list \<Rightarrow> string list" where
  "not_found_names requested_extension_name_set found_extension_names =
     (let v = replicate (length requested_extension_name_set - length found_extension_names) [];
          out = set_difference requested_extension_name_set found_extension_names
      in out @ drop (length out) v)"

definition not_found_names_str :: "string list \<Rightarrow> string" where
  "not_found_names_str names = fold (\<lambda>name s. s @ ('' '' @ name)) names ''''"

text \<open>Lines 331 to 353: the queue request and the device request.\<close>

definition device_create_info ::
  "PhysicalDevice \<Rightarrow> NamesArray \<Rightarrow> NamesArray \<Rightarrow> VkDeviceCreateInfo" where
  "device_create_info pd requested_layer_names requested_extension_names =
     (let priority_array = [1 :: rat];
          queue_create_info =
            \<lparr>VkDeviceQueueCreateInfo.sType = VK_STRUCTURE_TYPE_DEVICE_QUEUE_CREATE_INFO,
             queueFamilyIndex = PhysicalDevice.queue_family_index pd,
             queueCount = 1,
             pQueuePriorities = priority_array,
             VkDeviceQueueCreateInfo.flags = 0\<rparr>
      in \<lparr>VkDeviceCreateInfo.sType = VK_STRUCTURE_TYPE_DEVICE_CREATE_INFO,
          queueCreateInfoCount = 1,
          pQueueCreateInfos = [queue_create_info],
          VkDeviceCreateInfo.enabledLayerCount = count requested_layer_names,
          VkDeviceCreateInfo.ppEnabledLayerNames = map snd (elems requested_layer_names),
          VkDeviceCreateInfo.enabledExtensionCount = count requested_extension_names,
          VkDeviceCreateInfo.ppEnabledExtensionNames = map snd (elems requested_extension_names),
          VkDeviceCreateInfo.flags = 0\<rparr>)"

text \<open>
  \<^verbatim>\<open>PhysicalDevice::create_logical_device\<close>. The array \<^verbatim>\<open>extension_properties\<close> is
  obtained with \<^verbatim>\<open>new[]\<close> after the two checks on the count and released by the
  \<^verbatim>\<open>delete[]\<close> before the final \<^verbatim>\<open>return\<close>; the two \<^verbatim>\<open>NamesArray\<close> locals are destroyed
  when the function is left after their construction.
\<close>

definition create_logical_device ::
  "Driver \<Rightarrow> PhysicalDevice \<Rightarrow> IRequestLayerAndExtensions \<Rightarrow> Heap
     \<Rightarrow> (exception + LogicalDevice) \<times> Heap" where
  "create_logical_device drv pd parameters h =
     (case vkEnumerateDeviceExtensionProperties_count drv (physical_device pd) of
        (result, num_device_extension_properties) \<Rightarrow>
      if result \<noteq> VK_SUCCESS
      then (Inl (VulkanException result
                   ''Error while getting size of properties list for device''), h)
      else if num_device_extension_properties = 0
      then (Inl (runtime_error ''No properties array found for physical device''), h)
      else
      case new_array h of (extension_properties_addr, h1) \<Rightarrow>
      case vkEnumerateDeviceExtensionProperties_fill drv (physical_device pd)
             num_device_extension_properties of
        (result, extension_properties) \<Rightarrow>
      if result \<noteq> VK_SUCCESS
      then (Inl (VulkanException result
                   ''Error while getting list of device extension properties''), h1)
      else
      let requested_extensions = get_requested_extensions parameters;
          requested_extension_name_set =
            fold (\<lambda>info s. set_insert (ExtensionInfo.name info) s) requested_extensions [];
          found_extension_names =
            fold (\<lambda>p s. if set_find (extensionName p) requested_extension_name_set
                         then set_insert (extensionName p) s else s)
                 extension_properties []
      in
      if length found_extension_names \<noteq> length requested_extension_name_set
      then (Inl (runtime_error
                   (''Not all extensions found:'' @
                    not_found_names_str
                      (not_found_names requested_extension_name_set found_extension_names))),
            h1)
      else
      case NamesArray_new LayerInfo.name (get_requested_layers parameters) h1 of
        (requested_layer_names, h2) \<Rightarrow>
      case NamesArray_new ExtensionInfo.name requested_extensions h2 of
        (requested_extension_names, h3) \<Rightarrow>
      case vkCreateDevice drv (physical_device pd)
             (device_create_info pd requested_layer_names requested_extension_names) of
        (result, dev) \<Rightarrow>
      if result \<noteq> VK_SUCCESS
      then (Inl (VulkanException result ''Error while creating logical devive''),
            NamesArray_delete requested_layer_names
              (NamesArray_delete requested_extension_names h3))
      else (Inr \<lparr>device = dev,
                  LogicalDevice.queue_family_index = PhysicalDevice.queue_family_index pd\<rparr>,
            NamesArray_delete requested_layer_names
              (NamesArray_delete requested_extension_names
                 (delete_array extension_properties_addr h3))))"

section \<open>Example inputs\<close>

text \<open>
  A driver for the scenarios of the specification: one layer, the two instance extensions
  a window asks for, three accelerators, and an accelerator that supports the swapchain
  extension and one more. Every call succeeds.
\<close>

definition example_driver :: Driver where
  "example_driver =
     \<lparr>vkEnumerateInstanceLayerProperties_count = (VK_SUCCESS, 1),
      vkEnumerateInstanceLayerProperties_fill = (\<lambda>n. (VK_SUCCESS,
        [\<lparr>layerName = ''VK_LAYER_KHRONOS_validation'',
          VkLayerProperties.specVersion = 4202496,
          VkLayerProperties.implementationVersion = 1,
          VkLayerProperties.description = ''Khronos Validation Layer''\<rparr>])),
      vkEnumerateInstanceExtensionProperties_count = (VK_SUCCESS, 2),
      vkEnumerateInstanceExtensionProperties_fill = (\<lambda>n. (VK_SUCCESS,
        [\<lparr>extensionName = ''VK_KHR_surface'', VkExtensionProperties.specVersion = 25\<rparr>,
         \<lparr>extensionName = ''VK_KHR_win32_surface'', VkExtensionProperties.specVersion = 6\<rparr>])),
      SDL_Vulkan_GetInstanceExtensions_count = (\<lambda>window. (True, 2)),
      SDL_Vulkan_GetInstanceExtensions_fill =
        (\<lambda>window n. (True, [''VK_KHR_surface'', ''VK_KHR_win32_surface''])),
      vkCreateInstance = (\<lambda>create_info. (VK_SUCCESS, 1)),
      vkEnumeratePhysicalDevices_count = (\<lambda>inst. (VK_SUCCESS, 3)),
      vkEnumeratePhysicalDevices_fill = (\<lambda>inst n. (VK_SUCCESS, [10, 11, 12])),
      vkEnumerateDeviceExtensionProperties_count = (\<lambda>pd. (VK_SUCCESS, 2)),
      vkEnumerateDeviceExtensionProperties_fill = (\<lambda>pd n. (VK_SUCCESS,
        [\<lparr>extensionName = ''VK_KHR_swapchain'', VkExtensionProperties.specVersion = 70\<rparr>,
         \<lparr>extensionName = ''VK_KHR_maintenance1'', VkExtensionProperties.specVersion = 2\<rparr>])),
      vkCreateDevice = (\<lambda>pd create_info. (VK_SUCCESS, 100)),
      vkGetPhysicalDeviceSurfaceSupportKHR = (\<lambda>pd family s. (VK_SUCCESS, Some 1))\<rparr>"

definition example_physical_device :: PhysicalDevice where
  "example_physical_device = \<lparr>physical_device = 10, PhysicalDevice.queue_family_index = 0\<rparr>"

definition example_request :: IRequestLayerAndExtensions where
  "example_request =
     \<lparr>get_requested_layers = [],
      get_requested_extensions =
        [\<lparr>ExtensionInfo.name = ''VK_KHR_swapchain'', ExtensionInfo.specVersion = 70\<rparr>]\<rparr>"

text \<open>Variants of the example driver: a window that needs no extension, an accelerator
  that reports no extension, an accelerator without the swapchain extension, and a driver
  that refuses to create a device.\<close>

definition driver_no_window_extensions :: Driver where
  "driver_no_window_extensions =
     example_driver\<lparr>SDL_Vulkan_GetInstanceExtensions_count := \<lambda>window. (True, 0),
                    SDL_Vulkan_GetInstanceExtensions_fill := \<lambda>window n. (True, [])\<rparr>"

definition driver_no_device_extensions :: Driver where
  "driver_no_device_extensions =
     example_driver\<lparr>vkEnumerateDeviceExtensionProperties_count := \<lambda>pd. (VK_SUCCESS, 0),
                    vkEnumerateDeviceExtensionProperties_fill := \<lambda>pd n. (VK_SUCCESS, [])\<rparr>"

definition driver_without_swapchain :: Driver where
  "driver_without_swapchain =
     example_driver\<lparr>vkEnumerateDeviceExtensionProperties_fill := \<lambda>pd n. (VK_SUCCESS,
       [\<lparr>extensionName = ''VK_KHR_maintenance1'', VkExtensionProperties.specVersion = 2\<rparr>])\<rparr>"

definition driver_create_device_fails :: Driver where
  "driver_create_device_fails =
     example_driver\<lparr>vkCreateDevice :=
       \<lambda>pd create_info. (VK_ERROR_EXTENSION_NOT_PRESENT, 0)\<rparr>"

text \<open>Two more variants: a driver whose surface query reports an error after storing
  \<^verbatim>\<open>VK_TRUE\<close>, and a driver whose second enumeration calls succeed but write no
  entry.\<close>

definition driver_error_stores_true :: Driver where
  "driver_error_stores_true =
     example_driver\<lparr>vkGetPhysicalDeviceSurfaceSupportKHR :=
       \<lambda>pd family s. (VK_ERROR_SURFACE_LOST_KHR, Some 1)\<rparr>"

definition driver_fill_writes_nothing :: Driver where
  "driver_fill_writes_nothing =
     example_driver\<lparr>vkEnumerateInstanceLayerProperties_fill := \<lambda>n. (VK_SUCCESS, []),
                    vkEnumerateInstanceExtensionProperties_fill := \<lambda>n. (VK_SUCCESS, [])\<rparr>"

definition empty_heap :: Heap where
  "empty_heap = \<lparr>next_addr = 0, live = {}\<rparr>"

section \<open>Properties of the result-code table\<close>

lemmas VkResult_defs =
  VK_SUCCESS_def
  VK_NOT_READY_def
  VK_TIMEOUT_def
  VK_EVENT_SET_def
  VK_EVENT_RESET_def
  VK_INCOMPLETE_def
  VK_ERROR_OUT_OF_HOST_MEMORY_def
  VK_ERROR_OUT_OF_DEVICE_MEMORY_def
  VK_ERROR_INITIALIZATION_FAILED_def
  VK_ERROR_DEVICE_LOST_def
  VK_ERROR_MEMORY_MAP_FAILED_def
  VK_ERROR_LAYER_NOT_PRESENT_def
  VK_ERROR_EXTENSION_NOT_PRESENT_def
  VK_ERROR_FEATURE_NOT_PRESENT_def
  VK_ERROR_INCOMPATIBLE_DRIVER_def
  VK_ERROR_TOO_MANY_OBJECTS_def
  VK_ERROR_FORMAT_NOT_SUPPORTED_def
  VK_ERROR_FRAGMENTED_POOL_def
  VK_ERROR_UNKNOWN_def
  VK_ERROR_OUT_OF_POOL_MEMORY_def
  VK_ERROR_INVALID_EXTERNAL_HANDLE_def
  VK_ERROR_FRAGMENTATION_def
  VK_ERROR_INVALID_OPAQUE_CAPTURE_ADDRESS_def
  VK_ERROR_SURFACE_LOST_KHR_def
  VK_ERROR_NATIVE_WINDOW_IN_USE_KHR_def
  VK_SUBOPTIMAL_KHR_def
  VK_ERROR_OUT_OF_DATE_KHR_def
  VK_ERROR_INCOMPATIBLE_DISPLAY_KHR_def
  VK_ERROR_VALIDATION_FAILED_EXT_def
  VK_ERROR_INVALID_SHADER_NV_def
  VK_ERROR_INVALID_DRM_FORMAT_MODIFIER_PLANE_LAYOUT_EXT_def
  VK_ERROR_NOT_PERMITTED_EXT_def
  VK_ERROR_FULL_SCREEN_EXCLUSIVE_MODE_LOST_EXT_def
  VK_THREAD_IDLE_KHR_def
  VK_THREAD_DONE_KHR_def
  VK_OPERATION_DEFERRED_KHR_def
  VK_OPERATION_NOT_DEFERRED_KHR_def
  VK_PIPELINE_COMPILE_REQUIRED_EXT_def

lemma distinct_result_to_name_init: "distinct (map fst result_to_name_init)"
  by (simp add: result_to_name_init_def VkResult_defs)

lemma enum_name_in_table:
  assumes "(c, n) \<in> set result_to_name_init"
  shows "enum_name c = n"
proof -
  have "map_of result_to_name_init c = Some n"
    using assms distinct_result_to_name_init by (rule_tac map_of_is_SomeI)
  then show ?thesis by (simp add: enum_name_def result_to_name_def)
qed

lemma enum_name_not_in_table:
  assumes "c \<notin> fst ` set result_to_name_init"
  shows "enum_name c = ''???''"
proof -
  have "map_of result_to_name_init c = None"
    using assms by (simp only: map_of_eq_None_iff not_False_eq_True)
  then show ?thesis by (simp add: enum_name_def result_to_name_def)
qed

section \<open>Properties of the set model\<close>

lemma set_set_insert: "set (set_insert x xs) = insert x (set xs)"
  by (induction xs) auto

lemma sorted_set_insert: "sorted xs \<Longrightarrow> sorted (set_insert x xs)"
  by (induction xs) (auto simp: set_set_insert)

lemma distinct_set_insert: "sorted xs \<Longrightarrow> distinct xs \<Longrightarrow> distinct (set_insert x xs)"
  by (induction xs) (auto simp: set_set_insert)

lemma set_find_iff: "sorted xs \<Longrightarrow> set_find x xs \<longleftrightarrow> x \<in> set xs"
  by (induction xs) auto

lemma set_fold_set_insert: "set (fold set_insert xs acc) = set xs \<union> set acc"
  by (induction xs arbitrary: acc) (auto simp: set_set_insert)

lemma sorted_fold_set_insert: "sorted acc \<Longrightarrow> sorted (fold set_insert xs acc)"
  by (induction xs arbitrary: acc) (auto simp: sorted_set_insert)

lemma distinct_fold_set_insert:
  "sorted acc \<Longrightarrow> distinct acc \<Longrightarrow> distinct (fold set_insert xs acc)"
  by (induction xs arbitrary: acc) (auto simp: sorted_set_insert distinct_set_insert)

lemma fold_push_back_filter:
  "fold (\<lambda>x acc. if P x then acc @ [x] else acc) xs acc = acc @ filter P xs"
  by (induction xs arbitrary: acc) auto

lemma filter_by_name_filter:
  "filter_by_name name_of infos names_vec = filter (\<lambda>info. name_of info \<in> set names_vec) infos"
  by (simp add: filter_by_name_def fold_push_back_filter set_find_iff sorted_fold_set_insert
        set_fold_set_insert)

lemma fold_push_back_map: "fold (\<lambda>x acc. acc @ [f x]) xs acc = acc @ map f xs"
  by (induction xs arbitrary: acc) auto

lemma count_list_filter: "P x \<Longrightarrow> count_list (filter P xs) x = count_list xs x"
  by (induction xs) auto

section \<open>Properties of the extension check\<close>

lemma set_difference_filter:
  "sorted xs \<Longrightarrow> distinct xs \<Longrightarrow> sorted ys \<Longrightarrow> distinct ys \<Longrightarrow>
   set_difference xs ys = filter (\<lambda>x. x \<notin> set ys) xs"
proof (induction xs ys rule: set_difference.induct)
  case (1 ys)
  then show ?case by simp
next
  case (2 x xs)
  then show ?case by simp
next
  case (3 x xs y ys)
  show ?case
  proof (cases "x < y")
    case True
    with 3 have "x \<notin> set (y # ys)" by auto
    with True 3 show ?thesis by simp
  next
    case False
    show ?thesis
    proof (cases "y < x")
      case True
      with 3 have "y \<notin> set (x # xs)" by auto
      then have "filter (\<lambda>x. x \<notin> set (y # ys)) (x # xs) = filter (\<lambda>x. x \<notin> set ys) (x # xs)"
        by (intro filter_cong) auto
      with True False 3 show ?thesis by simp
    next
      case ge: False
      with False have eq: "x = y" by simp
      with 3 have "y \<notin> set xs" by simp
      then have "filter (\<lambda>x. x \<notin> set (y # ys)) xs = filter (\<lambda>x. x \<notin> set ys) xs"
        by (intro filter_cong) auto
      with eq 3 show ?thesis by simp
    qed
  qed
qed

lemma set_fold_found:
  "set (fold (\<lambda>p s. if P (f p) then set_insert (f p) s else s) ps acc)
     = {x \<in> f ` set ps. P x} \<union> set acc"
  by (induction ps arbitrary: acc) (auto simp: set_set_insert)

lemma sorted_fold_found:
  "sorted acc \<Longrightarrow> sorted (fold (\<lambda>p s. if P (f p) then set_insert (f p) s else s) ps acc)"
  by (induction ps arbitrary: acc) (auto simp: sorted_set_insert)

lemma distinct_fold_found:
  "sorted acc \<Longrightarrow> distinct acc \<Longrightarrow>
   distinct (fold (\<lambda>p s. if P (f p) then set_insert (f p) s else s) ps acc)"
  by (induction ps arbitrary: acc) (auto simp: sorted_set_insert distinct_set_insert)

lemma set_fold_names:
  "set (fold (\<lambda>info s. set_insert (f info) s) xs acc) = f ` set xs \<union> set acc"
  by (induction xs arbitrary: acc) (auto simp: set_set_insert)

lemma sorted_fold_names:
  "sorted acc \<Longrightarrow> sorted (fold (\<lambda>info s. set_insert (f info) s) xs acc)"
  by (induction xs arbitrary: acc) (auto simp: sorted_set_insert)

lemma distinct_fold_names:
  "sorted acc \<Longrightarrow> distinct acc \<Longrightarrow> distinct (fold (\<lambda>info s. set_insert (f info) s) xs acc)"
  by (induction xs arbitrary: acc) (auto simp: sorted_set_insert distinct_set_insert)

lemma not_found_names_str_concat:
  "not_found_names_str names = concat (map (\<lambda>name. '' '' @ name) names)"
proof -
  have "fold (\<lambda>name s. s @ ('' '' @ name)) names acc
          = acc @ concat (map (\<lambda>name. '' '' @ name) names)" for acc
    by (induction names arbitrary: acc) auto
  then show ?thesis by (simp add: not_found_names_str_def)
qed

lemma length_set_difference:
  assumes "sorted xs" "distinct xs" "sorted ys" "distinct ys" "set ys \<subseteq> set xs"
  shows "length (set_difference xs ys) = length xs - length ys"
proof -
  have "length (set_difference xs ys) = card (set xs - set ys)"
    using assms by (simp add: set_difference_filter distinct_card [symmetric] set_diff_eq)
  also have "\<dots> = card (set xs) - card (set ys)"
    using assms by (simp add: card_Diff_subset)
  finally show ?thesis using assms by (simp add: distinct_card)
qed

lemma not_found_names_sorted_list:
  assumes "sorted xs" "distinct xs" "sorted ys" "distinct ys" "set ys \<subseteq> set xs"
  shows "not_found_names xs ys = sorted_list_of_set (set xs - set ys)"
proof -
  have "not_found_names xs ys = set_difference xs ys"
    using length_set_difference [OF assms] by (simp add: not_found_names_def Let_def)
  also have "\<dots> = filter (\<lambda>x. x \<notin> set ys) xs"
    using assms by (simp add: set_difference_filter)
  also have "\<dots> = sorted_list_of_set (set xs - set ys)"
    using assms
    by (intro sorted_distinct_set_unique) (auto simp: sorted_filter [where f = "\<lambda>x. x", simplified])
  finally show ?thesis .
qed

lemma found_length_iff:
  fixes requested :: "ExtensionInfo list" and props :: "VkExtensionProperties list"
  defines "Rl \<equiv> fold (\<lambda>info s. set_insert (ExtensionInfo.name info) s) requested []"
  defines "Fl \<equiv> fold (\<lambda>p s. if set_find (extensionName p) Rl
                                then set_insert (extensionName p) s else s) props []"
  shows "length Fl = length Rl \<longleftrightarrow> ExtensionInfo.name ` set requested \<subseteq> extensionName ` set props"
    and "set Fl \<subseteq> set Rl"
    and "set Rl - set Fl = ExtensionInfo.name ` set requested - extensionName ` set props"
proof -
  have Rs: "sorted Rl" and Rd: "distinct Rl" and Rset: "set Rl = ExtensionInfo.name ` set requested"
    by (simp_all add: Rl_def sorted_fold_names distinct_fold_names set_fold_names)
  have Fd: "distinct Fl"
    unfolding Fl_def
    by (rule distinct_fold_found [where P = "\<lambda>x. set_find x Rl" and f = extensionName]) simp_all
  have Fset: "set Fl = extensionName ` set props \<inter> set Rl"
    unfolding Fl_def
    using Rs set_fold_found [where P = "\<lambda>x. set_find x Rl" and f = extensionName
        and ps = props and acc = "[]"]
    by (auto simp add: set_find_iff)
  show sub: "set Fl \<subseteq> set Rl" using Fset by blast
  show "set Rl - set Fl = ExtensionInfo.name ` set requested - extensionName ` set props"
    using Fset Rset by blast
  have "length Fl = length Rl \<longleftrightarrow> card (set Fl) = card (set Rl)"
    using Rd Fd by (simp add: distinct_card)
  also have "\<dots> \<longleftrightarrow> set Fl = set Rl"
    using sub by (metis card_subset_eq List.finite_set)
  also have "\<dots> \<longleftrightarrow> set Rl \<subseteq> extensionName ` set props"
    using Fset by blast
  finally show "length Fl = length Rl \<longleftrightarrow>
      ExtensionInfo.name ` set requested \<subseteq> extensionName ` set props"
    using Rset by simp
qed

section \<open>Properties of the queue-family index\<close>

lemma device_create_info_queue:
  "map queueFamilyIndex (pQueueCreateInfos (device_create_info pd la ea))
     = [PhysicalDevice.queue_family_index pd]"
  by (simp add: device_create_info_def)

lemma select_gpu_index:
  "select_gpu drv inst = Some (Inr pd0) \<Longrightarrow> PhysicalDevice.queue_family_index pd0 = 0"
  by (auto simp add: select_gpu_def Let_def split: prod.splits if_splits)

lemma create_logical_device_index:
  "fst (create_logical_device drv pd parameters h) = Inr ld \<Longrightarrow>
   LogicalDevice.queue_family_index ld = PhysicalDevice.queue_family_index pd"
  by (auto simp add: create_logical_device_def Let_def split: prod.splits if_splits)

lemma create_logical_device_driver_cong:
  assumes "\<forall>ci. map queueFamilyIndex (pQueueCreateInfos ci) = [PhysicalDevice.queue_family_index pd]
            \<longrightarrow> g (physical_device pd) ci = vkCreateDevice drv (physical_device pd) ci"
  shows "create_logical_device (drv\<lparr>vkCreateDevice := g\<rparr>) pd parameters h
           = create_logical_device drv pd parameters h"
proof -
  have "g (physical_device pd) (device_create_info pd la ea)
          = vkCreateDevice drv (physical_device pd) (device_create_info pd la ea)" for la ea
    using assms device_create_info_queue by blast
  then show ?thesis
    by (simp add: create_logical_device_def Let_def split: prod.splits)
qed

section \<open>Properties of the temporary buffers\<close>

lemma upt_Suc_add_Cons: "[n ..< Suc (n + k)] = n # [Suc n ..< Suc (n + k)]"
  by (simp add: upt_conv_Cons del: upt_Suc)

lemma live_Suc_add_insert:
  "A \<union> {n ..< Suc (n + k)} = insert n (A \<union> {Suc n ..< Suc (n + k)})"
  by auto

lemma NamesArray_new_fold:
  "fold (\<lambda>info (na, h1).
            (na\<lparr>elems := elems na @ [(next_addr h1, name_of info)], count := count na + 1\<rparr>,
             \<lparr>next_addr = Suc (next_addr h1), live = insert (next_addr h1) (live h1)\<rparr>))
        infos (na, h)
   = (na\<lparr>elems := elems na @ zip [next_addr h ..< next_addr h + length infos] (map name_of infos),
          count := count na + of_nat (length infos)\<rparr>,
      \<lparr>next_addr = next_addr h + length infos,
       live = live h \<union> {next_addr h ..< next_addr h + length infos}\<rparr>)"
proof (induction infos arbitrary: na h)
  case Nil
  then show ?case by simp
next
  case (Cons info infos)
  show ?case
    by (simp add: Cons.IH upt_Suc_add_Cons live_Suc_add_insert add.assoc del: upt_Suc)
qed

lemma NamesArray_new_eq:
  "NamesArray_new name_of infos h =
     (\<lparr>count = of_nat (length infos), c_strings = next_addr h,
       elems = zip [Suc (next_addr h) ..< Suc (next_addr h) + length infos] (map name_of infos)\<rparr>,
      \<lparr>next_addr = Suc (next_addr h) + length infos,
       live = live h \<union> {next_addr h ..< Suc (next_addr h) + length infos}\<rparr>)"
  by (simp add: NamesArray_new_def new_array_def NamesArray_new_fold live_Suc_add_insert
        del: upt_Suc)

lemma fold_delete_array:
  "fold (\<lambda>cell h1. delete_array (fst cell) h1) cells g
     = g\<lparr>live := live g - fst ` set cells\<rparr>"
proof (induction cells arbitrary: g)
  case Nil
  then show ?case by simp
next
  case (Cons cell cells)
  have "live g - {fst cell} - fst ` set cells = live g - insert (fst cell) (fst ` set cells)"
    by blast
  then show ?case by (simp add: Cons.IH) (simp add: delete_array_def)
qed

lemma NamesArray_delete_eq:
  "NamesArray_delete na g
     = g\<lparr>live := live g - insert (c_strings na) (fst ` set (take (unat (count na)) (elems na)))\<rparr>"
proof -
  have "live g - fst ` set (take (unat (count na)) (elems na)) - {c_strings na}
      = live g - insert (c_strings na) (fst ` set (take (unat (count na)) (elems na)))"
    by blast
  then show ?thesis
    by (simp add: NamesArray_delete_def fold_delete_array) (simp add: delete_array_def)
qed

lemma NamesArray_new_delete:
  assumes "length infos < 2 ^ 32"
  shows "NamesArray_delete (fst (NamesArray_new name_of infos h)) g
     = g\<lparr>live := live g - {next_addr h ..< Suc (next_addr h) + length infos}\<rparr>"
proof -
  have u: "unat (of_nat (length infos) :: 32 word) = length infos"
    using assms by (simp add: unat_of_nat)
  have i: "insert (next_addr h) {Suc (next_addr h) ..< Suc (next_addr h + length infos)}
      = {next_addr h ..< Suc (next_addr h + length infos)}"
    by auto
  have "fst ` set (zip [Suc (next_addr h) ..< Suc (next_addr h + length infos)]
                    (map name_of infos))
          = {Suc (next_addr h) ..< Suc (next_addr h + length infos)}"
    using map_fst_zip [of "[Suc (next_addr h) ..< Suc (next_addr h + length infos)]"
        "map name_of infos"]
    by (metis add_Suc add_diff_cancel_left' atLeastLessThan_upt length_map length_upt
          set_map)
  then show ?thesis
    by (simp add: NamesArray_new_eq NamesArray_delete_eq u i del: upt_Suc)
qed

lemma Instance_new_releases:
  assumes ok: "heap_ok h"
    and ll: "length (get_requested_layers parameters) < 2 ^ 32"
    and le: "length (get_requested_extensions parameters) < 2 ^ 32"
  shows "live (snd (Instance_new drv parameters h)) = live h"
proof -
  obtain A h1 where 1:
    "NamesArray_new LayerInfo.name (get_requested_layers parameters) h = (A, h1)"
    by force
  obtain B h2 where 2:
    "NamesArray_new ExtensionInfo.name (get_requested_extensions parameters) h1 = (B, h2)"
    by force
  have s: "snd (Instance_new drv parameters h) = NamesArray_delete A (NamesArray_delete B h2)"
    by (simp add: Instance_new_def 1 2 Let_def split: prod.splits)
  from 1 have n1: "next_addr h1 = Suc (next_addr h) + length (get_requested_layers parameters)"
    and l1: "live h1 = live h \<union> {next_addr h ..< next_addr h1}"
    by (auto simp add: NamesArray_new_eq)
  from 2 have n2: "next_addr h2 = Suc (next_addr h1) + length (get_requested_extensions parameters)"
    and l2: "live h2 = live h1 \<union> {next_addr h1 ..< next_addr h2}"
    by (auto simp add: NamesArray_new_eq)
  have dA: "NamesArray_delete A g = g\<lparr>live := live g - {next_addr h ..< next_addr h1}\<rparr>" for g
    using NamesArray_new_delete [OF ll, of LayerInfo.name h g] 1 n1 by simp
  have dB: "NamesArray_delete B g = g\<lparr>live := live g - {next_addr h1 ..< next_addr h2}\<rparr>" for g
    using NamesArray_new_delete [OF le, of ExtensionInfo.name h1 g] 2 n2 by simp
  have "live (NamesArray_delete A (NamesArray_delete B h2))
      = live h \<union> {next_addr h ..< next_addr h1} \<union> {next_addr h1 ..< next_addr h2}
          - {next_addr h1 ..< next_addr h2} - {next_addr h ..< next_addr h1}"
    by (simp add: dA dB l1 l2)
  also have "\<dots> = live h"
    using ok by (auto simp add: heap_ok_def n1)
  finally show ?thesis by (simp add: s)
qed

lemma create_logical_device_heap:
  assumes ok: "heap_ok h"
    and ll: "length (get_requested_layers parameters) < 2 ^ 32"
    and le: "length (get_requested_extensions parameters) < 2 ^ 32"
    and c: "vkEnumerateDeviceExtensionProperties_count drv (physical_device pd) = (VK_SUCCESS, n)"
    and n: "n \<noteq> 0"
  shows "live (snd (create_logical_device drv pd parameters h)) =
           (case fst (create_logical_device drv pd parameters h) of
              Inl e \<Rightarrow> insert (next_addr h) (live h)
            | Inr ld \<Rightarrow> live h)"
proof -
  define h1 where "h1 = snd (new_array h)"
  have na: "new_array h = (next_addr h, h1)"
    by (simp add: h1_def new_array_def)
  have n0: "next_addr h1 = Suc (next_addr h)" and l0: "live h1 = insert (next_addr h) (live h)"
    by (simp_all add: h1_def new_array_def)
  obtain A h2 where 1:
    "NamesArray_new LayerInfo.name (get_requested_layers parameters) h1 = (A, h2)"
    by force
  obtain B h3 where 2:
    "NamesArray_new ExtensionInfo.name (get_requested_extensions parameters) h2 = (B, h3)"
    by force
  from 1 have n1: "next_addr h2 = Suc (next_addr h1) + length (get_requested_layers parameters)"
    and l1: "live h2 = live h1 \<union> {next_addr h1 ..< next_addr h2}"
    by (auto simp add: NamesArray_new_eq)
  from 2 have n2: "next_addr h3 = Suc (next_addr h2) + length (get_requested_extensions parameters)"
    and l2: "live h3 = live h2 \<union> {next_addr h2 ..< next_addr h3}"
    by (auto simp add: NamesArray_new_eq)
  have dA: "NamesArray_delete A g = g\<lparr>live := live g - {next_addr h1 ..< next_addr h2}\<rparr>" for g
    using NamesArray_new_delete [OF ll, of LayerInfo.name h1 g] 1 n1 by simp
  have dB: "NamesArray_delete B g = g\<lparr>live := live g - {next_addr h2 ..< next_addr h3}\<rparr>" for g
    using NamesArray_new_delete [OF le, of ExtensionInfo.name h2 g] 2 n2 by simp
  have fail: "live (NamesArray_delete A (NamesArray_delete B h3)) = insert (next_addr h) (live h)"
  proof -
    have "live (NamesArray_delete A (NamesArray_delete B h3))
        = live h1 \<union> {next_addr h1 ..< next_addr h2} \<union> {next_addr h2 ..< next_addr h3}
            - {next_addr h2 ..< next_addr h3} - {next_addr h1 ..< next_addr h2}"
      by (simp add: dA dB l1 l2)
    also have "\<dots> = live h1"
      using ok by (auto simp add: heap_ok_def n0 n1 l0)
    finally show ?thesis by (simp add: l0)
  qed
  have success: "live (NamesArray_delete A (NamesArray_delete B (delete_array (next_addr h) h3)))
      = live h"
  proof -
    have "live (NamesArray_delete A (NamesArray_delete B (delete_array (next_addr h) h3)))
        = live h1 \<union> {next_addr h1 ..< next_addr h2} \<union> {next_addr h2 ..< next_addr h3}
            - {next_addr h} - {next_addr h2 ..< next_addr h3} - {next_addr h1 ..< next_addr h2}"
      by (simp add: dA dB l1 l2 delete_array_def)
    also have "\<dots> = live h"
      using ok by (auto simp add: heap_ok_def n0 n1 l0)
    finally show ?thesis .
  qed
  show ?thesis
    using fail success
    by (simp add: create_logical_device_def c n na 1 2 l0 Let_def split: prod.splits)
qed

section \<open>Properties of the device request\<close>

lemma map_snd_zip_upt:
  "map snd (zip [a ..< a + length xs] (map f xs)) = map f xs"
  by (rule map_snd_zip) simp

lemma NamesArray_new_names:
  "count (fst (NamesArray_new name_of infos h)) = of_nat (length infos)"
  "map snd (elems (fst (NamesArray_new name_of infos h))) = map name_of infos"
  using map_snd_zip_upt [of "Suc (next_addr h)" infos name_of]
  by (simp_all add: NamesArray_new_eq del: upt_Suc)

lemma create_logical_device_request:
  assumes c: "vkEnumerateDeviceExtensionProperties_count drv (physical_device pd) = (VK_SUCCESS, n)"
    and n: "n \<noteq> 0"
    and f: "vkEnumerateDeviceExtensionProperties_fill drv (physical_device pd) n
              = (VK_SUCCESS, props)"
    and sub: "ExtensionInfo.name ` set (get_requested_extensions parameters)
              \<subseteq> extensionName ` set props"
  shows "fst (create_logical_device drv pd parameters h) =
     (case vkCreateDevice drv (physical_device pd)
             \<lparr>VkDeviceCreateInfo.sType = VK_STRUCTURE_TYPE_DEVICE_CREATE_INFO,
              queueCreateInfoCount = 1,
              pQueueCreateInfos =
                [\<lparr>VkDeviceQueueCreateInfo.sType = VK_STRUCTURE_TYPE_DEVICE_QUEUE_CREATE_INFO,
                  queueFamilyIndex = PhysicalDevice.queue_family_index pd,
                  queueCount = 1,
                  pQueuePriorities = [1],
                  VkDeviceQueueCreateInfo.flags = 0\<rparr>],
              VkDeviceCreateInfo.enabledLayerCount =
                of_nat (length (get_requested_layers parameters)),
              VkDeviceCreateInfo.ppEnabledLayerNames =
                map LayerInfo.name (get_requested_layers parameters),
              VkDeviceCreateInfo.enabledExtensionCount =
                of_nat (length (get_requested_extensions parameters)),
              VkDeviceCreateInfo.ppEnabledExtensionNames =
                map ExtensionInfo.name (get_requested_extensions parameters),
              VkDeviceCreateInfo.flags = 0\<rparr> of
        (result, dev) \<Rightarrow>
          if result \<noteq> VK_SUCCESS
          then Inl (VulkanException result ''Error while creating logical devive'')
          else Inr \<lparr>device = dev,
                    LogicalDevice.queue_family_index = PhysicalDevice.queue_family_index pd\<rparr>)"
proof -
  define Rl where
    "Rl = fold (\<lambda>info s. set_insert (ExtensionInfo.name info) s)
            (get_requested_extensions parameters) []"
  define Fl where
    "Fl = fold (\<lambda>p s. if set_find (extensionName p) Rl
                       then set_insert (extensionName p) s else s) props []"
  have len: "length Fl = length Rl"
    using found_length_iff(1) [where props = props
      and requested = "get_requested_extensions parameters", folded Rl_def, folded Fl_def] sub
    by simp
  define h1 where "h1 = snd (new_array h)"
  have na: "new_array h = (next_addr h, h1)"
    by (simp add: h1_def new_array_def)
  obtain A h2 where 1:
    "NamesArray_new LayerInfo.name (get_requested_layers parameters) h1 = (A, h2)"
    by force
  obtain B h3 where 2:
    "NamesArray_new ExtensionInfo.name (get_requested_extensions parameters) h2 = (B, h3)"
    by force
  have A: "count A = of_nat (length (get_requested_layers parameters))"
    "map snd (elems A) = map LayerInfo.name (get_requested_layers parameters)"
    using NamesArray_new_names [of LayerInfo.name "get_requested_layers parameters" h1] 1
    by simp_all
  have B: "count B = of_nat (length (get_requested_extensions parameters))"
    "map snd (elems B) = map ExtensionInfo.name (get_requested_extensions parameters)"
    using NamesArray_new_names [of ExtensionInfo.name "get_requested_extensions parameters" h2] 2
    by simp_all
  have ci: "device_create_info pd A B =
             \<lparr>VkDeviceCreateInfo.sType = VK_STRUCTURE_TYPE_DEVICE_CREATE_INFO,
              queueCreateInfoCount = 1,
              pQueueCreateInfos =
                [\<lparr>VkDeviceQueueCreateInfo.sType = VK_STRUCTURE_TYPE_DEVICE_QUEUE_CREATE_INFO,
                  queueFamilyIndex = PhysicalDevice.queue_family_index pd,
                  queueCount = 1,
                  pQueuePriorities = [1],
                  VkDeviceQueueCreateInfo.flags = 0\<rparr>],
              VkDeviceCreateInfo.enabledLayerCount =
                of_nat (length (get_requested_layers parameters)),
              VkDeviceCreateInfo.ppEnabledLayerNames =
                map LayerInfo.name (get_requested_layers parameters),
              VkDeviceCreateInfo.enabledExtensionCount =
                of_nat (length (get_requested_extensions parameters)),
              VkDeviceCreateInfo.ppEnabledExtensionNames =
                map ExtensionInfo.name (get_requested_extensions parameters),
              VkDeviceCreateInfo.flags = 0\<rparr>"
    by (simp add: device_create_info_def A B)
  have r: "fst (create_logical_device drv pd parameters h) =
     (case vkCreateDevice drv (physical_device pd) (device_create_info pd A B) of
        (result, dev) \<Rightarrow>
          if result \<noteq> VK_SUCCESS
          then Inl (VulkanException result ''Error while creating logical devive'')
          else Inr \<lparr>device = dev,
                    LogicalDevice.queue_family_index = PhysicalDevice.queue_family_index pd\<rparr>)"
    using len
    by (simp add: create_logical_device_def c n f na 1 2 Let_def
          Rl_def [symmetric] Fl_def [symmetric] split: prod.splits)
  show ?thesis
    by (simp only: r ci)
qed

section \<open>Claims about the name filter\<close>

text \<open>
  C2. For every capability list \<open>L\<close> and name list \<open>N\<close>, \<open>filter_by_name\<close> returns exactly
  the elements of \<open>L\<close> whose name occurs in \<open>N\<close>, in the order they have in \<open>L\<close>. The result
  is empty when \<open>N\<close> is empty and when no name of \<open>L\<close> occurs in \<open>N\<close>. The function is total:
  its result is a list, there is no error value.
\<close>

theorem filter_by_name_spec:
  "filter_by_name name_of L N = filter (\<lambda>info. name_of info \<in> set N) L
   \<and> filter_by_name name_of L [] = []
   \<and> (set N \<inter> name_of ` set L = {} \<longrightarrow> filter_by_name name_of L N = [])"
proof (intro conjI impI)
  show "filter_by_name name_of L N = filter (\<lambda>info. name_of info \<in> set N) L"
    by (rule filter_by_name_filter)
  show "filter_by_name name_of L [] = []"
    by (simp add: filter_by_name_filter)
  assume "set N \<inter> name_of ` set L = {}"
  then have "\<forall>info \<in> set L. name_of info \<notin> set N" by blast
  then show "filter_by_name name_of L N = []"
    by (simp add: filter_by_name_filter)
qed

theorem filter_by_name_spec_witness:
  "set [''VK_KHR_surface''] \<inter> ExtensionInfo.name `
       set [\<lparr>ExtensionInfo.name = ''VK_KHR_swapchain'', specVersion = 70\<rparr>] = {}
   \<and> filter_by_name ExtensionInfo.name
        [\<lparr>ExtensionInfo.name = ''VK_KHR_swapchain'', specVersion = 70\<rparr>] [''VK_KHR_surface''] = []"
  using filter_by_name_spec [of ExtensionInfo.name
      "[\<lparr>ExtensionInfo.name = ''VK_KHR_swapchain'', specVersion = 70\<rparr>]" "[''VK_KHR_surface'']"]
  by simp

section \<open>Claims about the result-code table\<close>

text \<open>
  C5. The symbolic-name lookup \<open>enum_name\<close> is total. Every code of the fixed table maps to
  the name listed with it (for instance \<open>VK_ERROR_LAYER_NOT_PRESENT\<close>), and every code that
  is not a key of the table maps to the sentinel string \<open>???\<close>.
\<close>

theorem enum_name_total:
  "(\<forall>(c, n) \<in> set result_to_name_init. enum_name c = n)
   \<and> (c \<notin> fst ` set result_to_name_init \<longrightarrow> enum_name c = ''???'')
   \<and> enum_name VK_ERROR_LAYER_NOT_PRESENT = ''VK_ERROR_LAYER_NOT_PRESENT''"
proof (intro conjI)
  show "\<forall>(c, n) \<in> set result_to_name_init. enum_name c = n"
    using enum_name_in_table by blast
  show "c \<notin> fst ` set result_to_name_init \<longrightarrow> enum_name c = ''???''"
    using enum_name_not_in_table by blast
  have "(VK_ERROR_LAYER_NOT_PRESENT, ''VK_ERROR_LAYER_NOT_PRESENT'') \<in> set result_to_name_init"
    by (simp add: result_to_name_init_def)
  then show "enum_name VK_ERROR_LAYER_NOT_PRESENT = ''VK_ERROR_LAYER_NOT_PRESENT''"
    by (rule enum_name_in_table)
qed

theorem enum_name_total_witness:
  "(VK_ERROR_DEVICE_LOST, ''VK_ERROR_DEVICE_LOST'') \<in> set result_to_name_init
   \<and> enum_name VK_ERROR_DEVICE_LOST = ''VK_ERROR_DEVICE_LOST''
   \<and> (42::int) \<notin> fst ` set result_to_name_init
   \<and> enum_name 42 = ''???''"
proof -
  have a: "(VK_ERROR_DEVICE_LOST, ''VK_ERROR_DEVICE_LOST'') \<in> set result_to_name_init"
    by (simp add: result_to_name_init_def)
  have b: "(42::int) \<notin> fst ` set result_to_name_init"
    by (simp add: result_to_name_init_def VkResult_defs)
  note t = enum_name_total [of 42]
  from t have "\<forall>(c, n) \<in> set result_to_name_init. enum_name c = n"
    by (rule conjunct1)
  from bspec [OF this a] have c: "enum_name VK_ERROR_DEVICE_LOST = ''VK_ERROR_DEVICE_LOST''"
    by (simp only: prod.case)
  from t have "(42::int) \<notin> fst ` set result_to_name_init \<longrightarrow> enum_name 42 = ''???''"
    by (elim conjE)
  from mp [OF this b] have d: "enum_name 42 = ''???''" .
  from a b c d show ?thesis by (intro conjI)
qed

section \<open>Claims about the capability queries\<close>

text \<open>
  C8. Round trip: an element of the list a capability query returned, whose name is in the
  name list given to \<open>filter_by_name\<close>, is an element of the filtered list, as the same
  record (every field unchanged) and as many times as in the queried list. This holds for
  \<open>LayerInfo\<close> and for \<open>ExtensionInfo\<close>.
\<close>

theorem filter_by_name_round_trip:
  "(get_layer_infos drv = Inr L \<and> info \<in> set L \<and> LayerInfo.name info \<in> set N \<longrightarrow>
      info \<in> set (filter_by_name LayerInfo.name L N)
      \<and> count_list (filter_by_name LayerInfo.name L N) info = count_list L info)
   \<and> (get_extension_infos drv = Inr E \<and> einfo \<in> set E \<and> ExtensionInfo.name einfo \<in> set N' \<longrightarrow>
      einfo \<in> set (filter_by_name ExtensionInfo.name E N')
      \<and> count_list (filter_by_name ExtensionInfo.name E N') einfo = count_list E einfo)"
  by (simp add: filter_by_name_filter count_list_filter)

theorem filter_by_name_round_trip_witness:
  "get_layer_infos example_driver =
     Inr [\<lparr>LayerInfo.name = ''VK_LAYER_KHRONOS_validation'',
           LayerInfo.description = ''Khronos Validation Layer'',
           LayerInfo.specVersion = 4202496, LayerInfo.implementationVersion = 1\<rparr>]
   \<and> \<lparr>LayerInfo.name = ''VK_LAYER_KHRONOS_validation'',
           LayerInfo.description = ''Khronos Validation Layer'',
           LayerInfo.specVersion = 4202496, LayerInfo.implementationVersion = 1\<rparr>
       \<in> set (filter_by_name LayerInfo.name
           [\<lparr>LayerInfo.name = ''VK_LAYER_KHRONOS_validation'',
             LayerInfo.description = ''Khronos Validation Layer'',
             LayerInfo.specVersion = 4202496, LayerInfo.implementationVersion = 1\<rparr>]
           [''VK_LAYER_KHRONOS_validation''])
   \<and> get_extension_infos example_driver =
     Inr [\<lparr>ExtensionInfo.name = ''VK_KHR_surface'', ExtensionInfo.specVersion = 25\<rparr>,
          \<lparr>ExtensionInfo.name = ''VK_KHR_win32_surface'', ExtensionInfo.specVersion = 6\<rparr>]
   \<and> \<lparr>ExtensionInfo.name = ''VK_KHR_surface'', ExtensionInfo.specVersion = 25\<rparr>
       \<in> set (filter_by_name ExtensionInfo.name
           [\<lparr>ExtensionInfo.name = ''VK_KHR_surface'', ExtensionInfo.specVersion = 25\<rparr>,
            \<lparr>ExtensionInfo.name = ''VK_KHR_win32_surface'', ExtensionInfo.specVersion = 6\<rparr>]
           [''VK_KHR_surface''])"
proof -
  have l: "get_layer_infos example_driver =
     Inr [\<lparr>LayerInfo.name = ''VK_LAYER_KHRONOS_validation'',
           LayerInfo.description = ''Khronos Validation Layer'',
           LayerInfo.specVersion = 4202496, LayerInfo.implementationVersion = 1\<rparr>]"
    by (simp add: get_layer_infos_def example_driver_def VK_SUCCESS_def)
  have e: "get_extension_infos example_driver =
     Inr [\<lparr>ExtensionInfo.name = ''VK_KHR_surface'', ExtensionInfo.specVersion = 25\<rparr>,
          \<lparr>ExtensionInfo.name = ''VK_KHR_win32_surface'', ExtensionInfo.specVersion = 6\<rparr>]"
    by (simp add: get_extension_infos_def example_driver_def VK_SUCCESS_def)
  show ?thesis
    using l e filter_by_name_round_trip [of example_driver
      "[\<lparr>LayerInfo.name = ''VK_LAYER_KHRONOS_validation'',
           LayerInfo.description = ''Khronos Validation Layer'',
           LayerInfo.specVersion = 4202496, LayerInfo.implementationVersion = 1\<rparr>]"
      "\<lparr>LayerInfo.name = ''VK_LAYER_KHRONOS_validation'',
           LayerInfo.description = ''Khronos Validation Layer'',
           LayerInfo.specVersion = 4202496, LayerInfo.implementationVersion = 1\<rparr>"
      "[''VK_LAYER_KHRONOS_validation'']"
      "[\<lparr>ExtensionInfo.name = ''VK_KHR_surface'', ExtensionInfo.specVersion = 25\<rparr>,
          \<lparr>ExtensionInfo.name = ''VK_KHR_win32_surface'', ExtensionInfo.specVersion = 6\<rparr>]"
      "\<lparr>ExtensionInfo.name = ''VK_KHR_surface'', ExtensionInfo.specVersion = 25\<rparr>"
      "[''VK_KHR_surface'']"]
    by simp
qed

text \<open>
  C10. In \<open>get_layer_infos\<close> and \<open>get_extension_infos\<close> the result code of the second
  (buffer-filling) call is not examined. After a first call that succeeds with a count
  other than zero, the operation returns the sequence built from what the second call
  wrote, whatever result code \<open>r\<close> that call reports; and a \<open>VulkanException\<close> raised by
  either operation carries the result code of the first call and its message.
\<close>

theorem fill_result_not_examined:
  "(vkEnumerateInstanceLayerProperties_count drv = (VK_SUCCESS, n) \<and> n \<noteq> 0
      \<and> vkEnumerateInstanceLayerProperties_fill drv n = (r, layer_properties)
    \<longrightarrow> get_layer_infos drv =
          Inr (map (\<lambda>p. \<lparr>LayerInfo.name = layerName p,
                         LayerInfo.description = VkLayerProperties.description p,
                         LayerInfo.specVersion = VkLayerProperties.specVersion p,
                         LayerInfo.implementationVersion =
                           VkLayerProperties.implementationVersion p\<rparr>) layer_properties))
   \<and> (get_layer_infos drv = Inl (VulkanException c m)
    \<longrightarrow> c = fst (vkEnumerateInstanceLayerProperties_count drv) \<and> c \<noteq> VK_SUCCESS
        \<and> m = ''Error getting number of layers'')
   \<and> (vkEnumerateInstanceExtensionProperties_count drv = (VK_SUCCESS, n') \<and> n' \<noteq> 0
      \<and> vkEnumerateInstanceExtensionProperties_fill drv n' = (r', properties)
    \<longrightarrow> get_extension_infos drv =
          Inr (map (\<lambda>p. \<lparr>ExtensionInfo.name = extensionName p,
                         ExtensionInfo.specVersion = VkExtensionProperties.specVersion p\<rparr>)
                 properties))
   \<and> (get_extension_infos drv = Inl (VulkanException c' m')
    \<longrightarrow> c' = fst (vkEnumerateInstanceExtensionProperties_count drv) \<and> c' \<noteq> VK_SUCCESS
        \<and> m' = ''Error getting number of extensions'')"
  by (auto simp add: get_layer_infos_def get_extension_infos_def fold_push_back_map
        split: prod.splits if_splits)

theorem fill_result_not_examined_witness:
  "vkEnumerateInstanceLayerProperties_count
      (example_driver\<lparr>vkEnumerateInstanceLayerProperties_fill := \<lambda>n. (VK_INCOMPLETE, [])\<rparr>)
     = (VK_SUCCESS, 1) \<and> (1 :: 32 word) \<noteq> 0
   \<and> vkEnumerateInstanceLayerProperties_fill
      (example_driver\<lparr>vkEnumerateInstanceLayerProperties_fill := \<lambda>n. (VK_INCOMPLETE, [])\<rparr>) 1
     = (VK_INCOMPLETE, [])
   \<and> get_layer_infos
      (example_driver\<lparr>vkEnumerateInstanceLayerProperties_fill := \<lambda>n. (VK_INCOMPLETE, [])\<rparr>)
     = Inr []
   \<and> vkEnumerateInstanceExtensionProperties_count
      (example_driver\<lparr>vkEnumerateInstanceExtensionProperties_fill :=
         \<lambda>n. (VK_ERROR_OUT_OF_HOST_MEMORY,
           [\<lparr>extensionName = ''VK_KHR_surface'', VkExtensionProperties.specVersion = 25\<rparr>])\<rparr>)
     = (VK_SUCCESS, 2) \<and> (2 :: 32 word) \<noteq> 0
   \<and> vkEnumerateInstanceExtensionProperties_fill
      (example_driver\<lparr>vkEnumerateInstanceExtensionProperties_fill :=
         \<lambda>n. (VK_ERROR_OUT_OF_HOST_MEMORY,
           [\<lparr>extensionName = ''VK_KHR_surface'', VkExtensionProperties.specVersion = 25\<rparr>])\<rparr>) 2
     = (VK_ERROR_OUT_OF_HOST_MEMORY,
           [\<lparr>extensionName = ''VK_KHR_surface'', VkExtensionProperties.specVersion = 25\<rparr>])
   \<and> get_extension_infos
      (example_driver\<lparr>vkEnumerateInstanceExtensionProperties_fill :=
         \<lambda>n. (VK_ERROR_OUT_OF_HOST_MEMORY,
           [\<lparr>extensionName = ''VK_KHR_surface'', VkExtensionProperties.specVersion = 25\<rparr>])\<rparr>)
     = Inr [\<lparr>ExtensionInfo.name = ''VK_KHR_surface'', ExtensionInfo.specVersion = 25\<rparr>]
   \<and> get_layer_infos
      (example_driver\<lparr>vkEnumerateInstanceLayerProperties_count := (VK_ERROR_OUT_OF_HOST_MEMORY, 0)\<rparr>)
     = Inl (VulkanException VK_ERROR_OUT_OF_HOST_MEMORY ''Error getting number of layers'')
   \<and> get_extension_infos
      (example_driver\<lparr>vkEnumerateInstanceExtensionProperties_count := (VK_ERROR_OUT_OF_HOST_MEMORY, 0)\<rparr>)
     = Inl (VulkanException VK_ERROR_OUT_OF_HOST_MEMORY ''Error getting number of extensions'')
   \<and> VK_ERROR_OUT_OF_HOST_MEMORY \<noteq> VK_SUCCESS"
proof -
  let ?d = "example_driver\<lparr>vkEnumerateInstanceLayerProperties_fill := \<lambda>n. (VK_INCOMPLETE, []),
      vkEnumerateInstanceExtensionProperties_fill :=
         \<lambda>n. (VK_ERROR_OUT_OF_HOST_MEMORY,
           [\<lparr>extensionName = ''VK_KHR_surface'', VkExtensionProperties.specVersion = 25\<rparr>])\<rparr>"
  let ?e = "example_driver\<lparr>vkEnumerateInstanceLayerProperties_count := (VK_ERROR_OUT_OF_HOST_MEMORY, 0),
      vkEnumerateInstanceExtensionProperties_count := (VK_ERROR_OUT_OF_HOST_MEMORY, 0)\<rparr>"
  have le: "get_layer_infos ?e
     = Inl (VulkanException VK_ERROR_OUT_OF_HOST_MEMORY ''Error getting number of layers'')"
    by (simp add: get_layer_infos_def example_driver_def VK_SUCCESS_def
          VK_ERROR_OUT_OF_HOST_MEMORY_def)
  have ee: "get_extension_infos ?e
     = Inl (VulkanException VK_ERROR_OUT_OF_HOST_MEMORY ''Error getting number of extensions'')"
    by (simp add: get_extension_infos_def example_driver_def VK_SUCCESS_def
          VK_ERROR_OUT_OF_HOST_MEMORY_def)
  show ?thesis
    using fill_result_not_examined [of ?d 1 VK_INCOMPLETE "[]" _ _ 2
        VK_ERROR_OUT_OF_HOST_MEMORY
        "[\<lparr>extensionName = ''VK_KHR_surface'', VkExtensionProperties.specVersion = 25\<rparr>]"
        ]
      fill_result_not_examined [of ?e _ _ _ VK_ERROR_OUT_OF_HOST_MEMORY
        "''Error getting number of layers''" _ _ _ VK_ERROR_OUT_OF_HOST_MEMORY
        "''Error getting number of extensions''"] le ee
    by (simp add: example_driver_def get_layer_infos_def get_extension_infos_def)
qed

text \<open>
  C4. When both enumeration calls succeed and the driver lists the accelerators
  \<open>A # rest\<close>, \<open>select_gpu\<close> returns the descriptor of \<open>A\<close>, with queue-family index 0.
\<close>

theorem select_gpu_first:
  "vkEnumeratePhysicalDevices_count drv (instance_handle inst) = (VK_SUCCESS, n) \<Longrightarrow>
   vkEnumeratePhysicalDevices_fill drv (instance_handle inst) n = (VK_SUCCESS, A # rest) \<Longrightarrow>
   select_gpu drv inst = Some (Inr \<lparr>physical_device = A, PhysicalDevice.queue_family_index = 0\<rparr>)"
  by (simp add: select_gpu_def)

theorem select_gpu_first_witness:
  "vkEnumeratePhysicalDevices_count example_driver (instance_handle \<lparr>instance_handle = 1\<rparr>)
     = (VK_SUCCESS, 3)
   \<and> vkEnumeratePhysicalDevices_fill example_driver (instance_handle \<lparr>instance_handle = 1\<rparr>) 3
     = (VK_SUCCESS, 10 # [11, 12])
   \<and> select_gpu example_driver \<lparr>instance_handle = 1\<rparr>
     = Some (Inr \<lparr>physical_device = 10, PhysicalDevice.queue_family_index = 0\<rparr>)"
proof -
  have a: "vkEnumeratePhysicalDevices_count example_driver (instance_handle \<lparr>instance_handle = 1\<rparr>)
     = (VK_SUCCESS, 3)"
    by (simp add: example_driver_def)
  have b: "vkEnumeratePhysicalDevices_fill example_driver (instance_handle \<lparr>instance_handle = 1\<rparr>) 3
     = (VK_SUCCESS, 10 # [11, 12])"
    by (simp add: example_driver_def)
  from a b select_gpu_first [OF a b] show ?thesis by (intro conjI)
qed

text \<open>
  C6. As stated the claim fails: a driver error does not always give false. When the
  driver call reports \<open>VK_ERROR_SURFACE_LOST_KHR\<close> after storing \<open>VK_TRUE\<close> through
  \<open>pSupported\<close>, \<open>is_surface_supported\<close> returns true.
\<close>

theorem surface_error_true_counterexample:
  "vkGetPhysicalDeviceSurfaceSupportKHR driver_error_stores_true
       (physical_device example_physical_device)
       (PhysicalDevice.queue_family_index example_physical_device) (surface \<lparr>surface = 5\<rparr>)
     = (VK_ERROR_SURFACE_LOST_KHR, Some 1)
   \<and> VK_ERROR_SURFACE_LOST_KHR \<noteq> VK_SUCCESS
   \<and> is_surface_supported driver_error_stores_true example_physical_device \<lparr>surface = 5\<rparr>
     = True"
  by (simp add: is_surface_supported_def driver_error_stores_true_def example_driver_def
        example_physical_device_def VK_ERROR_SURFACE_LOST_KHR_def VK_SUCCESS_def)

text \<open>
  C6, amended. \<open>is_surface_supported\<close> returns a boolean and has no failure path (its
  result type has no error value). The result code of the driver call is ignored: the
  answer depends only on what the driver stored through \<open>pSupported\<close> for the accelerator,
  its stored queue-family index and the surface, and it is true exactly when the stored
  value is not \<open>VK_FALSE\<close>. A call that fails with any result code \<open>r\<close> and stores
  nothing, and a call that stores \<open>VK_FALSE\<close>, both make the operation return false, so
  these two cannot be told apart.
\<close>

theorem is_surface_supported_no_failure_path:
  "(snd (vkGetPhysicalDeviceSurfaceSupportKHR drv (physical_device pd)
           (PhysicalDevice.queue_family_index pd) (surface s))
      = snd (vkGetPhysicalDeviceSurfaceSupportKHR drv' (physical_device pd)
           (PhysicalDevice.queue_family_index pd) (surface s))
    \<longrightarrow> is_surface_supported drv pd s = is_surface_supported drv' pd s)
   \<and> (vkGetPhysicalDeviceSurfaceSupportKHR drv (physical_device pd)
           (PhysicalDevice.queue_family_index pd) (surface s) = (r, None)
    \<longrightarrow> is_surface_supported drv pd s = False)
   \<and> (vkGetPhysicalDeviceSurfaceSupportKHR drv' (physical_device pd)
           (PhysicalDevice.queue_family_index pd) (surface s) = (r', Some v)
    \<longrightarrow> is_surface_supported drv' pd s = (v \<noteq> 0))"
  by (simp add: is_surface_supported_def)

theorem is_surface_supported_no_failure_path_witness:
  "vkGetPhysicalDeviceSurfaceSupportKHR
       (example_driver\<lparr>vkGetPhysicalDeviceSurfaceSupportKHR :=
          \<lambda>pd family s. (VK_ERROR_SURFACE_LOST_KHR, None)\<rparr>)
       (physical_device example_physical_device)
       (PhysicalDevice.queue_family_index example_physical_device) (surface \<lparr>surface = 5\<rparr>)
     = (VK_ERROR_SURFACE_LOST_KHR, None)
   \<and> is_surface_supported
       (example_driver\<lparr>vkGetPhysicalDeviceSurfaceSupportKHR :=
          \<lambda>pd family s. (VK_ERROR_SURFACE_LOST_KHR, None)\<rparr>)
       example_physical_device \<lparr>surface = 5\<rparr> = False
   \<and> vkGetPhysicalDeviceSurfaceSupportKHR
       (example_driver\<lparr>vkGetPhysicalDeviceSurfaceSupportKHR :=
          \<lambda>pd family s. (VK_SUCCESS, Some 0)\<rparr>)
       (physical_device example_physical_device)
       (PhysicalDevice.queue_family_index example_physical_device) (surface \<lparr>surface = 5\<rparr>)
     = (VK_SUCCESS, Some 0)
   \<and> is_surface_supported
       (example_driver\<lparr>vkGetPhysicalDeviceSurfaceSupportKHR :=
          \<lambda>pd family s. (VK_SUCCESS, Some 0)\<rparr>)
       example_physical_device \<lparr>surface = 5\<rparr> = False
   \<and> is_surface_supported
       (example_driver\<lparr>vkGetPhysicalDeviceSurfaceSupportKHR :=
          \<lambda>pd family s. (VK_ERROR_SURFACE_LOST_KHR, Some 1)\<rparr>)
       example_physical_device \<lparr>surface = 5\<rparr>
     = is_surface_supported example_driver example_physical_device \<lparr>surface = 5\<rparr>"
proof -
  let ?err = "example_driver\<lparr>vkGetPhysicalDeviceSurfaceSupportKHR :=
          \<lambda>pd family s. (VK_ERROR_SURFACE_LOST_KHR, None)\<rparr>"
  let ?no = "example_driver\<lparr>vkGetPhysicalDeviceSurfaceSupportKHR :=
          \<lambda>pd family s. (VK_SUCCESS, Some 0)\<rparr>"
  let ?odd = "example_driver\<lparr>vkGetPhysicalDeviceSurfaceSupportKHR :=
          \<lambda>pd family s. (VK_ERROR_SURFACE_LOST_KHR, Some 1)\<rparr>"
  have a: "vkGetPhysicalDeviceSurfaceSupportKHR ?err (physical_device example_physical_device)
       (PhysicalDevice.queue_family_index example_physical_device) (surface \<lparr>surface = 5\<rparr>)
     = (VK_ERROR_SURFACE_LOST_KHR, None)"
    by simp
  have b: "vkGetPhysicalDeviceSurfaceSupportKHR ?no (physical_device example_physical_device)
       (PhysicalDevice.queue_family_index example_physical_device) (surface \<lparr>surface = 5\<rparr>)
     = (VK_SUCCESS, Some 0)"
    by simp
  have c: "snd (vkGetPhysicalDeviceSurfaceSupportKHR ?odd (physical_device example_physical_device)
       (PhysicalDevice.queue_family_index example_physical_device) (surface \<lparr>surface = 5\<rparr>))
     = snd (vkGetPhysicalDeviceSurfaceSupportKHR example_driver
       (physical_device example_physical_device)
       (PhysicalDevice.queue_family_index example_physical_device) (surface \<lparr>surface = 5\<rparr>))"
    by (simp add: example_driver_def)
  note t1 = is_surface_supported_no_failure_path
    [of ?err example_physical_device "\<lparr>surface = 5\<rparr>" ?no VK_ERROR_SURFACE_LOST_KHR VK_SUCCESS 0]
  note t2 = is_surface_supported_no_failure_path
    [of ?odd example_physical_device "\<lparr>surface = 5\<rparr>" example_driver]
  have "is_surface_supported ?err example_physical_device \<lparr>surface = 5\<rparr> = False"
    by (rule mp [OF conjunct1 [OF conjunct2 [OF t1]] a])
  moreover have "is_surface_supported ?no example_physical_device \<lparr>surface = 5\<rparr> = False"
    using mp [OF conjunct2 [OF conjunct2 [OF t1]] b] by simp
  moreover have "is_surface_supported ?odd example_physical_device \<lparr>surface = 5\<rparr>
     = is_surface_supported example_driver example_physical_device \<lparr>surface = 5\<rparr>"
    by (rule mp [OF conjunct1 [OF t2] c])
  ultimately show ?thesis using a b by (intro conjI)
qed

text \<open>
  C3. As stated the claim fails in two ways. The window-required-extension-name query has
  no zero check: when both calls of the windowing library succeed and the count is zero,
  \<open>get_extension_names\<close> returns the empty sequence. And the layer query and the global
  extension query do return an empty sequence without an error when the first call gives
  a count that is not zero and the second call succeeds but writes no entry.
\<close>

theorem window_query_empty_counterexample:
  "SDL_Vulkan_GetInstanceExtensions_count driver_no_window_extensions 7 = (True, 0)
   \<and> SDL_Vulkan_GetInstanceExtensions_fill driver_no_window_extensions 7 0 = (True, [])
   \<and> get_extension_names driver_no_window_extensions 7 = Inr []
   \<and> vkEnumerateInstanceLayerProperties_count driver_fill_writes_nothing = (VK_SUCCESS, 1)
   \<and> vkEnumerateInstanceLayerProperties_fill driver_fill_writes_nothing 1 = (VK_SUCCESS, [])
   \<and> get_layer_infos driver_fill_writes_nothing = Inr []
   \<and> vkEnumerateInstanceExtensionProperties_count driver_fill_writes_nothing = (VK_SUCCESS, 2)
   \<and> vkEnumerateInstanceExtensionProperties_fill driver_fill_writes_nothing 2 = (VK_SUCCESS, [])
   \<and> get_extension_infos driver_fill_writes_nothing = Inr []"
  by (simp add: get_extension_names_def get_layer_infos_def get_extension_infos_def
        driver_no_window_extensions_def driver_fill_writes_nothing_def example_driver_def)

text \<open>
  C3, amended. For the layer query, the global extension query and the per-device
  extension query of \<open>create_logical_device\<close>, a first call that succeeds with a count of
  zero makes the operation fail with the \<open>runtime_error\<close> of its zero check. The layer
  query and the global extension query return a sequence only when that count was not
  zero, and they return the empty sequence only when the second call wrote no entry.
\<close>

theorem zero_count_is_an_error:
  "(vkEnumerateInstanceLayerProperties_count drv = (VK_SUCCESS, 0)
      \<longrightarrow> get_layer_infos drv = Inl (runtime_error ''Layer count non-positive''))
   \<and> (vkEnumerateInstanceExtensionProperties_count drv = (VK_SUCCESS, 0)
      \<longrightarrow> get_extension_infos drv = Inl (runtime_error ''Extension count zero''))
   \<and> (vkEnumerateDeviceExtensionProperties_count drv (physical_device pd) = (VK_SUCCESS, 0)
      \<longrightarrow> fst (create_logical_device drv pd parameters h)
            = Inl (runtime_error ''No properties array found for physical device''))
   \<and> (get_layer_infos drv' = Inr L
      \<longrightarrow> snd (vkEnumerateInstanceLayerProperties_count drv') \<noteq> 0)
   \<and> (get_extension_infos drv' = Inr E
      \<longrightarrow> snd (vkEnumerateInstanceExtensionProperties_count drv') \<noteq> 0)
   \<and> (get_layer_infos drv'' = Inr []
      \<longrightarrow> snd (vkEnumerateInstanceLayerProperties_fill drv''
                 (snd (vkEnumerateInstanceLayerProperties_count drv''))) = [])
   \<and> (get_extension_infos drv'' = Inr []
      \<longrightarrow> snd (vkEnumerateInstanceExtensionProperties_fill drv''
                 (snd (vkEnumerateInstanceExtensionProperties_count drv''))) = [])"
  by (auto simp add: get_layer_infos_def get_extension_infos_def create_logical_device_def
        fold_push_back_map split: prod.splits if_splits)

theorem zero_count_is_an_error_witness:
  "vkEnumerateInstanceLayerProperties_count
      (example_driver\<lparr>vkEnumerateInstanceLayerProperties_count := (VK_SUCCESS, 0),
                      vkEnumerateInstanceExtensionProperties_count := (VK_SUCCESS, 0),
                      vkEnumerateDeviceExtensionProperties_count := \<lambda>pd. (VK_SUCCESS, 0)\<rparr>)
     = (VK_SUCCESS, 0)
   \<and> get_layer_infos
      (example_driver\<lparr>vkEnumerateInstanceLayerProperties_count := (VK_SUCCESS, 0),
                      vkEnumerateInstanceExtensionProperties_count := (VK_SUCCESS, 0),
                      vkEnumerateDeviceExtensionProperties_count := \<lambda>pd. (VK_SUCCESS, 0)\<rparr>)
     = Inl (runtime_error ''Layer count non-positive'')
   \<and> get_extension_infos
      (example_driver\<lparr>vkEnumerateInstanceLayerProperties_count := (VK_SUCCESS, 0),
                      vkEnumerateInstanceExtensionProperties_count := (VK_SUCCESS, 0),
                      vkEnumerateDeviceExtensionProperties_count := \<lambda>pd. (VK_SUCCESS, 0)\<rparr>)
     = Inl (runtime_error ''Extension count zero'')
   \<and> fst (create_logical_device
      (example_driver\<lparr>vkEnumerateInstanceLayerProperties_count := (VK_SUCCESS, 0),
                      vkEnumerateInstanceExtensionProperties_count := (VK_SUCCESS, 0),
                      vkEnumerateDeviceExtensionProperties_count := \<lambda>pd. (VK_SUCCESS, 0)\<rparr>)
      example_physical_device example_request empty_heap)
     = Inl (runtime_error ''No properties array found for physical device'')
   \<and> get_layer_infos example_driver =
     Inr [\<lparr>LayerInfo.name = ''VK_LAYER_KHRONOS_validation'',
           LayerInfo.description = ''Khronos Validation Layer'',
           LayerInfo.specVersion = 4202496, LayerInfo.implementationVersion = 1\<rparr>]
   \<and> snd (vkEnumerateInstanceLayerProperties_count example_driver) \<noteq> 0
   \<and> get_extension_infos example_driver =
     Inr [\<lparr>ExtensionInfo.name = ''VK_KHR_surface'', ExtensionInfo.specVersion = 25\<rparr>,
          \<lparr>ExtensionInfo.name = ''VK_KHR_win32_surface'', ExtensionInfo.specVersion = 6\<rparr>]
   \<and> snd (vkEnumerateInstanceExtensionProperties_count example_driver) \<noteq> 0
   \<and> get_layer_infos driver_fill_writes_nothing = Inr []
   \<and> snd (vkEnumerateInstanceLayerProperties_fill driver_fill_writes_nothing
            (snd (vkEnumerateInstanceLayerProperties_count driver_fill_writes_nothing))) = []
   \<and> get_extension_infos driver_fill_writes_nothing = Inr []
   \<and> snd (vkEnumerateInstanceExtensionProperties_fill driver_fill_writes_nothing
            (snd (vkEnumerateInstanceExtensionProperties_count driver_fill_writes_nothing))) = []"
proof -
  let ?z = "example_driver\<lparr>vkEnumerateInstanceLayerProperties_count := (VK_SUCCESS, 0),
                      vkEnumerateInstanceExtensionProperties_count := (VK_SUCCESS, 0),
                      vkEnumerateDeviceExtensionProperties_count := \<lambda>pd. (VK_SUCCESS, 0)\<rparr>"
  have a: "vkEnumerateInstanceLayerProperties_count ?z = (VK_SUCCESS, 0)" by simp
  have b: "vkEnumerateInstanceExtensionProperties_count ?z = (VK_SUCCESS, 0)" by simp
  have c: "vkEnumerateDeviceExtensionProperties_count ?z (physical_device example_physical_device)
     = (VK_SUCCESS, 0)" by simp
  have l: "get_layer_infos example_driver =
     Inr [\<lparr>LayerInfo.name = ''VK_LAYER_KHRONOS_validation'',
           LayerInfo.description = ''Khronos Validation Layer'',
           LayerInfo.specVersion = 4202496, LayerInfo.implementationVersion = 1\<rparr>]"
    by (simp add: get_layer_infos_def example_driver_def VK_SUCCESS_def)
  have e: "get_extension_infos example_driver =
     Inr [\<lparr>ExtensionInfo.name = ''VK_KHR_surface'', ExtensionInfo.specVersion = 25\<rparr>,
          \<lparr>ExtensionInfo.name = ''VK_KHR_win32_surface'', ExtensionInfo.specVersion = 6\<rparr>]"
    by (simp add: get_extension_infos_def example_driver_def VK_SUCCESS_def)
  note t = zero_count_is_an_error [of ?z example_physical_device example_request empty_heap
      example_driver
      "[\<lparr>LayerInfo.name = ''VK_LAYER_KHRONOS_validation'',
           LayerInfo.description = ''Khronos Validation Layer'',
           LayerInfo.specVersion = 4202496, LayerInfo.implementationVersion = 1\<rparr>]"
      "[\<lparr>ExtensionInfo.name = ''VK_KHR_surface'', ExtensionInfo.specVersion = 25\<rparr>,
          \<lparr>ExtensionInfo.name = ''VK_KHR_win32_surface'', ExtensionInfo.specVersion = 6\<rparr>]"
      driver_fill_writes_nothing]
  have ln: "get_layer_infos driver_fill_writes_nothing = Inr []"
    by (simp add: get_layer_infos_def driver_fill_writes_nothing_def example_driver_def)
  have en: "get_extension_infos driver_fill_writes_nothing = Inr []"
    by (simp add: get_extension_infos_def driver_fill_writes_nothing_def example_driver_def)
  note t4 = conjunct2 [OF conjunct2 [OF conjunct2 [OF conjunct2 [OF t]]]]
  note r1 = mp [OF conjunct1 [OF t] a]
  note r2 = mp [OF conjunct1 [OF conjunct2 [OF t]] b]
  note r3 = mp [OF conjunct1 [OF conjunct2 [OF conjunct2 [OF t]]] c]
  note r4 = mp [OF conjunct1 [OF conjunct2 [OF conjunct2 [OF conjunct2 [OF t]]]] l]
  note r5 = mp [OF conjunct1 [OF t4] e]
  note r6 = mp [OF conjunct1 [OF conjunct2 [OF t4]] ln]
  note r7 = mp [OF conjunct2 [OF conjunct2 [OF t4]] en]
  from a r1 r2 r3 l r4 e r5 ln r6 en r7 show ?thesis by (intro conjI)
qed

section \<open>Claims about logical device creation\<close>

text \<open>
  C1. As stated the claim fails in two ways. When the accelerator reports no extension
  at all (a count of zero), a request that is not a subset of the empty supported set is
  refused by the zero check, with the message of that check, before the requested names
  are looked at. And when a requested name is missing from a supported set that is not
  empty, the message is not the joined names alone: it starts with
  \<open>Not all extensions found:\<close>, and each missing name follows a space.
\<close>

theorem extension_gate_counterexample:
  "\<not> ExtensionInfo.name ` set (get_requested_extensions example_request)
        \<subseteq> extensionName ` set []
   \<and> vkEnumerateDeviceExtensionProperties_count driver_no_device_extensions
        (physical_device example_physical_device) = (VK_SUCCESS, 0)
   \<and> fst (create_logical_device driver_no_device_extensions
        example_physical_device example_request empty_heap)
     = Inl (runtime_error ''No properties array found for physical device'')
   \<and> vkEnumerateDeviceExtensionProperties_fill driver_without_swapchain
        (physical_device example_physical_device) 2
     = (VK_SUCCESS,
        [\<lparr>extensionName = ''VK_KHR_maintenance1'', VkExtensionProperties.specVersion = 2\<rparr>])
   \<and> fst (create_logical_device driver_without_swapchain
        example_physical_device example_request empty_heap)
     = Inl (runtime_error ''Not all extensions found: VK_KHR_swapchain'')
   \<and> ''Not all extensions found: VK_KHR_swapchain'' \<noteq> ''VK_KHR_swapchain''"
  by (simp add: create_logical_device_def driver_no_device_extensions_def
        driver_without_swapchain_def example_driver_def example_request_def
        example_physical_device_def empty_heap_def new_array_def not_found_names_def
        not_found_names_str_def Let_def)

text \<open>
  C1, amended. When both enumeration calls succeed and the count is not zero, with \<open>R\<close>
  the set of requested extension names and \<open>S\<close> the set of names the accelerator
  reported: if \<open>R\<close> is not a subset of \<open>S\<close>, \<open>create_logical_device\<close> fails with the
  \<open>runtime_error\<close> whose message is \<open>Not all extensions found:\<close> followed by the names of
  \<open>R - S\<close> in increasing order, each after one space; if \<open>R\<close> is a subset of \<open>S\<close>, it
  does not fail with a \<open>runtime_error\<close> at all.
\<close>

theorem create_logical_device_extension_gate:
  assumes c: "vkEnumerateDeviceExtensionProperties_count drv (physical_device pd) = (VK_SUCCESS, n)"
    and n: "n \<noteq> 0"
    and f: "vkEnumerateDeviceExtensionProperties_fill drv (physical_device pd) n
              = (VK_SUCCESS, props)"
  shows "(\<not> ExtensionInfo.name ` set (get_requested_extensions parameters)
              \<subseteq> extensionName ` set props \<longrightarrow>
          fst (create_logical_device drv pd parameters h) =
            Inl (runtime_error
              (''Not all extensions found:'' @
               concat (map (\<lambda>name. '' '' @ name)
                 (sorted_list_of_set
                    (ExtensionInfo.name ` set (get_requested_extensions parameters)
                       - extensionName ` set props))))))
       \<and> (ExtensionInfo.name ` set (get_requested_extensions parameters)
              \<subseteq> extensionName ` set props \<longrightarrow>
          (\<forall>m. fst (create_logical_device drv pd parameters h) \<noteq> Inl (runtime_error m)))"
proof -
  define Rl where
    "Rl = fold (\<lambda>info s. set_insert (ExtensionInfo.name info) s)
            (get_requested_extensions parameters) []"
  define Fl where
    "Fl = fold (\<lambda>p s. if set_find (extensionName p) Rl
                       then set_insert (extensionName p) s else s) props []"
  note fl = found_length_iff [where props = props
      and requested = "get_requested_extensions parameters", folded Rl_def, folded Fl_def]
  have Rs: "sorted Rl" "distinct Rl"
    by (simp_all add: Rl_def sorted_fold_names distinct_fold_names)
  have Fs: "sorted Fl" "distinct Fl"
    unfolding Fl_def
    using sorted_fold_found [where P = "\<lambda>x. set_find x Rl" and f = extensionName
        and ps = props and acc = "[]"]
      distinct_fold_found [where P = "\<lambda>x. set_find x Rl" and f = extensionName
        and ps = props and acc = "[]"]
    by simp_all
  have nf: "not_found_names Rl Fl =
      sorted_list_of_set (ExtensionInfo.name ` set (get_requested_extensions parameters)
                       - extensionName ` set props)"
    using not_found_names_sorted_list [OF Rs Fs fl(2)] fl(3) by simp
  show ?thesis
    using c n f fl(1) nf
    by (simp add: create_logical_device_def Let_def not_found_names_str_concat
          Rl_def [symmetric] Fl_def [symmetric] split: prod.splits)
qed

theorem create_logical_device_extension_gate_witness:
  "vkEnumerateDeviceExtensionProperties_count example_driver
       (physical_device example_physical_device) = (VK_SUCCESS, 2)
   \<and> (2 :: 32 word) \<noteq> 0
   \<and> vkEnumerateDeviceExtensionProperties_fill example_driver
       (physical_device example_physical_device) 2
     = (VK_SUCCESS,
        [\<lparr>extensionName = ''VK_KHR_swapchain'', VkExtensionProperties.specVersion = 70\<rparr>,
         \<lparr>extensionName = ''VK_KHR_maintenance1'', VkExtensionProperties.specVersion = 2\<rparr>])
   \<and> ExtensionInfo.name ` set (get_requested_extensions example_request)
       \<subseteq> extensionName ` set
        [\<lparr>extensionName = ''VK_KHR_swapchain'', VkExtensionProperties.specVersion = 70\<rparr>,
         \<lparr>extensionName = ''VK_KHR_maintenance1'', VkExtensionProperties.specVersion = 2\<rparr>]
   \<and> (\<forall>m. fst (create_logical_device example_driver example_physical_device example_request
               empty_heap) \<noteq> Inl (runtime_error m))
   \<and> \<not> ExtensionInfo.name ` set (get_requested_extensions
          (example_request\<lparr>get_requested_extensions :=
             [\<lparr>ExtensionInfo.name = ''VK_KHR_swapchain'', ExtensionInfo.specVersion = 70\<rparr>,
              \<lparr>ExtensionInfo.name = ''VK_EXT_debug_marker'', ExtensionInfo.specVersion = 4\<rparr>,
              \<lparr>ExtensionInfo.name = ''VK_KHR_maintenance1'', ExtensionInfo.specVersion = 2\<rparr>]\<rparr>))
       \<subseteq> extensionName ` set
        [\<lparr>extensionName = ''VK_KHR_swapchain'', VkExtensionProperties.specVersion = 70\<rparr>,
         \<lparr>extensionName = ''VK_KHR_maintenance1'', VkExtensionProperties.specVersion = 2\<rparr>]
   \<and> fst (create_logical_device example_driver example_physical_device
          (example_request\<lparr>get_requested_extensions :=
             [\<lparr>ExtensionInfo.name = ''VK_KHR_swapchain'', ExtensionInfo.specVersion = 70\<rparr>,
              \<lparr>ExtensionInfo.name = ''VK_EXT_debug_marker'', ExtensionInfo.specVersion = 4\<rparr>,
              \<lparr>ExtensionInfo.name = ''VK_KHR_maintenance1'', ExtensionInfo.specVersion = 2\<rparr>]\<rparr>)
          empty_heap)
     = Inl (runtime_error ''Not all extensions found: VK_EXT_debug_marker'')"
proof -
  let ?props = "[\<lparr>extensionName = ''VK_KHR_swapchain'', VkExtensionProperties.specVersion = 70\<rparr>,
         \<lparr>extensionName = ''VK_KHR_maintenance1'', VkExtensionProperties.specVersion = 2\<rparr>]"
  let ?req = "example_request\<lparr>get_requested_extensions :=
             [\<lparr>ExtensionInfo.name = ''VK_KHR_swapchain'', ExtensionInfo.specVersion = 70\<rparr>,
              \<lparr>ExtensionInfo.name = ''VK_EXT_debug_marker'', ExtensionInfo.specVersion = 4\<rparr>,
              \<lparr>ExtensionInfo.name = ''VK_KHR_maintenance1'', ExtensionInfo.specVersion = 2\<rparr>]\<rparr>"
  have c: "vkEnumerateDeviceExtensionProperties_count example_driver
       (physical_device example_physical_device) = (VK_SUCCESS, 2)"
    by (simp add: example_driver_def)
  have n: "(2 :: 32 word) \<noteq> 0" by simp
  have f: "vkEnumerateDeviceExtensionProperties_fill example_driver
       (physical_device example_physical_device) 2 = (VK_SUCCESS, ?props)"
    by (simp add: example_driver_def)
  have sub: "ExtensionInfo.name ` set (get_requested_extensions example_request)
       \<subseteq> extensionName ` set ?props"
    by (simp add: example_request_def)
  have nsub: "\<not> ExtensionInfo.name ` set (get_requested_extensions ?req)
       \<subseteq> extensionName ` set ?props"
    by simp
  have diff: "ExtensionInfo.name ` set (get_requested_extensions ?req)
       - extensionName ` set ?props = {''VK_EXT_debug_marker''}"
    by auto
  note ok = create_logical_device_extension_gate [OF c n f, of example_request empty_heap]
  note ko = create_logical_device_extension_gate [OF c n f, of ?req empty_heap]
  have r1: "\<forall>m. fst (create_logical_device example_driver example_physical_device
               example_request empty_heap) \<noteq> Inl (runtime_error m)"
    by (rule mp [OF conjunct2 [OF ok] sub])
  have r2: "fst (create_logical_device example_driver example_physical_device ?req empty_heap)
     = Inl (runtime_error ''Not all extensions found: VK_EXT_debug_marker'')"
    using mp [OF conjunct1 [OF ko] nsub] by (simp only: diff) simp
  from c n f sub r1 nsub r2 show ?thesis by (intro conjI)
qed

text \<open>
  C7. The queue-family index of a \<open>PhysicalDevice\<close> is set by \<open>select_gpu\<close> (to 0, for
  the first accelerator of the list) and no operation changes it. Once the extension
  check is passed, the result of \<open>create_logical_device\<close> is the answer of
  \<^verbatim>\<open>vkCreateDevice\<close> to the request written out below, whose single queue entry has the
  stored index: the error of that answer, or a \<open>LogicalDevice\<close> with the device of that
  answer and the same index. Replacing the driver's answers to requests of any other
  shape changes nothing. The result of \<open>is_surface_supported\<close> is the value the driver
  stored for the accelerator, the stored index and the surface (false when it stored
  nothing), and the driver's answers at any other index change nothing.
\<close>

theorem queue_family_index_reused:
  "(vkEnumeratePhysicalDevices_count drv (instance_handle inst) = (VK_SUCCESS, k)
      \<and> vkEnumeratePhysicalDevices_fill drv (instance_handle inst) k = (VK_SUCCESS, A # rest)
      \<longrightarrow> select_gpu drv inst
            = Some (Inr \<lparr>physical_device = A, PhysicalDevice.queue_family_index = 0\<rparr>))
   \<and> (select_gpu drv inst = Some (Inr pd0) \<longrightarrow> PhysicalDevice.queue_family_index pd0 = 0)
   \<and> map queueFamilyIndex (pQueueCreateInfos (device_create_info pd la ea))
        = [PhysicalDevice.queue_family_index pd]
   \<and> (vkEnumerateDeviceExtensionProperties_count drv (physical_device pd) = (VK_SUCCESS, n)
      \<and> n \<noteq> 0
      \<and> vkEnumerateDeviceExtensionProperties_fill drv (physical_device pd) n
            = (VK_SUCCESS, props)
      \<and> ExtensionInfo.name ` set (get_requested_extensions parameters)
            \<subseteq> extensionName ` set props
      \<longrightarrow> fst (create_logical_device drv pd parameters h) =
            (case vkCreateDevice drv (physical_device pd)
               \<lparr>VkDeviceCreateInfo.sType = VK_STRUCTURE_TYPE_DEVICE_CREATE_INFO,
                queueCreateInfoCount = 1,
                pQueueCreateInfos =
                  [\<lparr>VkDeviceQueueCreateInfo.sType = VK_STRUCTURE_TYPE_DEVICE_QUEUE_CREATE_INFO,
                    queueFamilyIndex = PhysicalDevice.queue_family_index pd,
                    queueCount = 1,
                    pQueuePriorities = [1],
                    VkDeviceQueueCreateInfo.flags = 0\<rparr>],
                VkDeviceCreateInfo.enabledLayerCount =
                  of_nat (length (get_requested_layers parameters)),
                VkDeviceCreateInfo.ppEnabledLayerNames =
                  map LayerInfo.name (get_requested_layers parameters),
                VkDeviceCreateInfo.enabledExtensionCount =
                  of_nat (length (get_requested_extensions parameters)),
                VkDeviceCreateInfo.ppEnabledExtensionNames =
                  map ExtensionInfo.name (get_requested_extensions parameters),
                VkDeviceCreateInfo.flags = 0\<rparr> of
               (result, dev) \<Rightarrow>
                 if result \<noteq> VK_SUCCESS
                 then Inl (VulkanException result ''Error while creating logical devive'')
                 else Inr \<lparr>device = dev,
                           LogicalDevice.queue_family_index =
                             PhysicalDevice.queue_family_index pd\<rparr>))
   \<and> (fst (create_logical_device drv pd parameters h) = Inr ld
        \<longrightarrow> LogicalDevice.queue_family_index ld = PhysicalDevice.queue_family_index pd)
   \<and> ((\<forall>ci. map queueFamilyIndex (pQueueCreateInfos ci) = [PhysicalDevice.queue_family_index pd]
            \<longrightarrow> g (physical_device pd) ci = vkCreateDevice drv (physical_device pd) ci)
        \<longrightarrow> create_logical_device (drv\<lparr>vkCreateDevice := g\<rparr>) pd parameters h
              = create_logical_device drv pd parameters h)
   \<and> (vkGetPhysicalDeviceSurfaceSupportKHR drv1 (physical_device pd)
          (PhysicalDevice.queue_family_index pd) (surface s) = (r, None)
        \<longrightarrow> is_surface_supported drv1 pd s = False)
   \<and> (vkGetPhysicalDeviceSurfaceSupportKHR drv2 (physical_device pd)
          (PhysicalDevice.queue_family_index pd) (surface s) = (r', Some v)
        \<longrightarrow> is_surface_supported drv2 pd s = (v \<noteq> 0))
   \<and> (g' (physical_device pd) (PhysicalDevice.queue_family_index pd) (surface s)
          = vkGetPhysicalDeviceSurfaceSupportKHR drv (physical_device pd)
              (PhysicalDevice.queue_family_index pd) (surface s)
        \<longrightarrow> is_surface_supported (drv\<lparr>vkGetPhysicalDeviceSurfaceSupportKHR := g'\<rparr>) pd s
              = is_surface_supported drv pd s)"
proof -
  have c1: "vkEnumeratePhysicalDevices_count drv (instance_handle inst) = (VK_SUCCESS, k)
      \<and> vkEnumeratePhysicalDevices_fill drv (instance_handle inst) k = (VK_SUCCESS, A # rest)
      \<longrightarrow> select_gpu drv inst
            = Some (Inr \<lparr>physical_device = A, PhysicalDevice.queue_family_index = 0\<rparr>)"
    by (simp add: select_gpu_def)
  have c2: "select_gpu drv inst = Some (Inr pd0) \<longrightarrow> PhysicalDevice.queue_family_index pd0 = 0"
    using select_gpu_index by blast
  note c3 = device_create_info_queue [of pd la ea]
  have c5: "fst (create_logical_device drv pd parameters h) = Inr ld
        \<longrightarrow> LogicalDevice.queue_family_index ld = PhysicalDevice.queue_family_index pd"
    using create_logical_device_index by blast
  have c6: "(\<forall>ci. map queueFamilyIndex (pQueueCreateInfos ci)
               = [PhysicalDevice.queue_family_index pd]
            \<longrightarrow> g (physical_device pd) ci = vkCreateDevice drv (physical_device pd) ci)
        \<longrightarrow> create_logical_device (drv\<lparr>vkCreateDevice := g\<rparr>) pd parameters h
              = create_logical_device drv pd parameters h"
    using create_logical_device_driver_cong [of pd g drv parameters h] by (rule impI)
  have c7: "vkGetPhysicalDeviceSurfaceSupportKHR drv1 (physical_device pd)
          (PhysicalDevice.queue_family_index pd) (surface s) = (r, None)
        \<longrightarrow> is_surface_supported drv1 pd s = False"
    by (simp add: is_surface_supported_def)
  have c8: "vkGetPhysicalDeviceSurfaceSupportKHR drv2 (physical_device pd)
          (PhysicalDevice.queue_family_index pd) (surface s) = (r', Some v)
        \<longrightarrow> is_surface_supported drv2 pd s = (v \<noteq> 0)"
    by (simp add: is_surface_supported_def)
  have c9: "g' (physical_device pd) (PhysicalDevice.queue_family_index pd) (surface s)
          = vkGetPhysicalDeviceSurfaceSupportKHR drv (physical_device pd)
              (PhysicalDevice.queue_family_index pd) (surface s)
        \<longrightarrow> is_surface_supported (drv\<lparr>vkGetPhysicalDeviceSurfaceSupportKHR := g'\<rparr>) pd s
              = is_surface_supported drv pd s"
    by (simp add: is_surface_supported_def)
  show ?thesis
    by (intro conjI;
        (rule c1 c2 c3 c5 c6 c7 c8 c9
         | (intro impI, elim conjE, rule create_logical_device_request; assumption)))
qed

theorem queue_family_index_reused_witness:
  "select_gpu example_driver \<lparr>instance_handle = 1\<rparr> = Some (Inr example_physical_device)
   \<and> PhysicalDevice.queue_family_index example_physical_device = 0
   \<and> vkEnumerateDeviceExtensionProperties_count example_driver
        (physical_device example_physical_device) = (VK_SUCCESS, 2)
   \<and> vkEnumerateDeviceExtensionProperties_fill example_driver
        (physical_device example_physical_device) 2
       = (VK_SUCCESS,
          [\<lparr>extensionName = ''VK_KHR_swapchain'', VkExtensionProperties.specVersion = 70\<rparr>,
           \<lparr>extensionName = ''VK_KHR_maintenance1'', VkExtensionProperties.specVersion = 2\<rparr>])
   \<and> fst (create_logical_device example_driver example_physical_device example_request empty_heap)
       = Inr \<lparr>device = 100, LogicalDevice.queue_family_index = 0\<rparr>
   \<and> LogicalDevice.queue_family_index \<lparr>device = 100, LogicalDevice.queue_family_index = 0\<rparr>
       = PhysicalDevice.queue_family_index example_physical_device
   \<and> create_logical_device
        (example_driver\<lparr>vkCreateDevice := \<lambda>pd ci.
           if map queueFamilyIndex (pQueueCreateInfos ci) = [0]
           then (VK_SUCCESS, 100) else (VK_ERROR_UNKNOWN, 0)\<rparr>)
        example_physical_device example_request empty_heap
       = create_logical_device example_driver example_physical_device example_request empty_heap
   \<and> is_surface_supported
        (example_driver\<lparr>vkGetPhysicalDeviceSurfaceSupportKHR :=
           \<lambda>pd family s. (VK_ERROR_SURFACE_LOST_KHR, None)\<rparr>)
        example_physical_device \<lparr>surface = 5\<rparr> = False
   \<and> is_surface_supported example_driver example_physical_device \<lparr>surface = 5\<rparr> = True
   \<and> is_surface_supported
        (example_driver\<lparr>vkGetPhysicalDeviceSurfaceSupportKHR := \<lambda>pd family s.
           if family = 0 then (VK_SUCCESS, Some 1) else (VK_ERROR_UNKNOWN, None)\<rparr>)
        example_physical_device \<lparr>surface = 5\<rparr>
       = is_surface_supported example_driver example_physical_device \<lparr>surface = 5\<rparr>"
proof -
  let ?g = "\<lambda>(pd :: VkPhysicalDevice) ci.
           if map queueFamilyIndex (pQueueCreateInfos ci) = [0]
           then (VK_SUCCESS, 100 :: VkDevice) else (VK_ERROR_UNKNOWN, 0)"
  let ?g' = "\<lambda>(pd :: VkPhysicalDevice) (family :: 32 word) (s :: VkSurfaceKHR).
           if family = 0 then (VK_SUCCESS, Some (1 :: 32 word)) else (VK_ERROR_UNKNOWN, None)"
  let ?err = "example_driver\<lparr>vkGetPhysicalDeviceSurfaceSupportKHR :=
           \<lambda>pd family s. (VK_ERROR_SURFACE_LOST_KHR, None)\<rparr>"
  let ?ld = "\<lparr>device = 100, LogicalDevice.queue_family_index = 0\<rparr>"
  let ?props = "[\<lparr>extensionName = ''VK_KHR_swapchain'', VkExtensionProperties.specVersion = 70\<rparr>,
           \<lparr>extensionName = ''VK_KHR_maintenance1'', VkExtensionProperties.specVersion = 2\<rparr>]"
  have s1: "vkEnumeratePhysicalDevices_count example_driver
        (instance_handle \<lparr>instance_handle = 1\<rparr>) = (VK_SUCCESS, 3)
      \<and> vkEnumeratePhysicalDevices_fill example_driver
        (instance_handle \<lparr>instance_handle = 1\<rparr>) 3 = (VK_SUCCESS, 10 # [11, 12])"
    by (simp add: example_driver_def)
  have e1: "vkEnumerateDeviceExtensionProperties_count example_driver
        (physical_device example_physical_device) = (VK_SUCCESS, 2)"
    by (simp add: example_driver_def)
  have e2: "vkEnumerateDeviceExtensionProperties_fill example_driver
        (physical_device example_physical_device) 2 = (VK_SUCCESS, ?props)"
    by (simp add: example_driver_def)
  have e3: "ExtensionInfo.name ` set (get_requested_extensions example_request)
            \<subseteq> extensionName ` set ?props"
    by (simp add: example_request_def)
  have c: "\<forall>ci. map queueFamilyIndex (pQueueCreateInfos ci)
            = [PhysicalDevice.queue_family_index example_physical_device]
          \<longrightarrow> ?g (physical_device example_physical_device) ci
              = vkCreateDevice example_driver (physical_device example_physical_device) ci"
    by (simp add: example_driver_def example_physical_device_def)
  have d0: "vkGetPhysicalDeviceSurfaceSupportKHR ?err (physical_device example_physical_device)
             (PhysicalDevice.queue_family_index example_physical_device) (surface \<lparr>surface = 5\<rparr>)
       = (VK_ERROR_SURFACE_LOST_KHR, None)"
    by simp
  have d1: "vkGetPhysicalDeviceSurfaceSupportKHR example_driver
             (physical_device example_physical_device)
             (PhysicalDevice.queue_family_index example_physical_device) (surface \<lparr>surface = 5\<rparr>)
       = (VK_SUCCESS, Some 1)"
    by (simp add: example_driver_def)
  have d: "?g' (physical_device example_physical_device)
             (PhysicalDevice.queue_family_index example_physical_device) (surface \<lparr>surface = 5\<rparr>)
       = vkGetPhysicalDeviceSurfaceSupportKHR example_driver
           (physical_device example_physical_device)
           (PhysicalDevice.queue_family_index example_physical_device) (surface \<lparr>surface = 5\<rparr>)"
    by (simp add: example_driver_def example_physical_device_def)
  note t = queue_family_index_reused [where drv = example_driver
      and inst = "\<lparr>instance_handle = 1\<rparr>" and k = 3 and A = 10 and rest = "[11, 12]"
      and ?pd0.0 = example_physical_device and pd = example_physical_device
      and n = 2 and props = ?props and parameters = example_request and h = empty_heap
      and ld = ?ld and g = ?g and g' = ?g' and s = "\<lparr>surface = 5\<rparr>"
      and ?drv1.0 = ?err and r = VK_ERROR_SURFACE_LOST_KHR
      and ?drv2.0 = example_driver and r' = VK_SUCCESS and v = 1]
  note u1 = conjunct2 [OF t]
  note u2 = conjunct2 [OF u1]
  note u3 = conjunct2 [OF u2]
  note u4 = conjunct2 [OF u3]
  note u5 = conjunct2 [OF u4]
  note u6 = conjunct2 [OF u5]
  note u7 = conjunct2 [OF u6]
  have a: "select_gpu example_driver \<lparr>instance_handle = 1\<rparr> = Some (Inr example_physical_device)"
    using mp [OF conjunct1 [OF t] s1] by (simp add: example_physical_device_def)
  note r2 = mp [OF conjunct1 [OF u1] a]
  have b: "fst (create_logical_device example_driver example_physical_device example_request
             empty_heap) = Inr ?ld"
    using mp [OF conjunct1 [OF u3]] e1 e2 e3
    by (simp add: example_driver_def example_physical_device_def)
  note r5 = mp [OF conjunct1 [OF u4] b]
  note r6 = mp [OF conjunct1 [OF u5] c]
  note r7 = mp [OF conjunct1 [OF u6] d0]
  have r8: "is_surface_supported example_driver example_physical_device \<lparr>surface = 5\<rparr> = True"
    using mp [OF conjunct1 [OF u7] d1] by simp
  note r9 = mp [OF conjunct2 [OF u7] d]
  from a r2 e1 e2 b r5 r6 r7 r8 r9 show ?thesis by (intro conjI)
qed

section \<open>Claims about the temporary buffers\<close>

text \<open>
  C9. The claim does not hold of \<open>create_logical_device\<close>: when \<^verbatim>\<open>vkCreateDevice\<close> fails,
  the array \<^verbatim>\<open>extension_properties\<close> (address 0 here) is still live after the call. The
  two \<open>NamesArray\<close> buffers are released, and on the successful path nothing stays live.
  Lemma \<open>create_logical_device_heap\<close> shows the same for every error raised after the
  array is obtained, and lemma \<open>Instance_new_releases\<close> shows that instance creation
  releases all its buffers.
\<close>

theorem create_logical_device_leaks_on_error:
  "create_logical_device driver_create_device_fails
     example_physical_device example_request empty_heap
     = (Inl (VulkanException VK_ERROR_EXTENSION_NOT_PRESENT ''Error while creating logical devive''),
        \<lparr>next_addr = 4, live = {0}\<rparr>)
   \<and> create_logical_device example_driver example_physical_device example_request empty_heap
     = (Inr \<lparr>device = 100, LogicalDevice.queue_family_index = 0\<rparr>,
        \<lparr>next_addr = 4, live = {}\<rparr>)"
  by (auto simp add: create_logical_device_def driver_create_device_fails_def
        example_driver_def example_request_def
        example_physical_device_def empty_heap_def new_array_def delete_array_def
        NamesArray_new_def NamesArray_delete_def Let_def VK_SUCCESS_def
        VK_ERROR_EXTENSION_NOT_PRESENT_def)

end
